theory Spec2Isabelle
  imports Complex_Main
begin

section \<open>Data model\<close>

text \<open>
  The repository is six scripts, one per HTTP client library, that issue the same
  catalogue of requests against \<^verbatim>\<open>https://httpbin.org\<close>, time each call with the
  decorator \<^verbatim>\<open>measure_time\<close> and print a summary. The scripts own no protocol code: the
  client library, the server and the operating system are the environment. The embedding
  keeps them as a parameter (\<open>env\<close>) and models the scripts' own control flow: which request
  is issued with which options, which exceptions are caught, what is returned, what is
  written into the result dictionaries.

  Durations are Python floats in the source; they are rationals here, so the rounding of
  float subtraction and division is not modelled (signs and comparisons are the same).
  Time passes only inside calls to the environment. Cyrillic text of the source (console
  labels, payload texts) is glossed in ASCII; labels that are ASCII in the source are kept
  verbatim.
\<close>

datatype json = JNull | JBool bool | JInt int | JStr string
  | JArr "json list" | JObj "(string \<times> json) list"

datatype body = NoBody
  | JsonBody json
  | FormBody "(string \<times> string) list"
  | RawBody string
  | MultipartBody "(string \<times> string) list" "(string \<times> string \<times> string \<times> string) list"

datatype auth = NoAuth | BasicAuth string string | DigestAuth string string

text \<open>
  One outbound call, with the keyword arguments the scripts use made explicit and the
  libraries' defaults filled in. \<open>cookiejar\<close> names the session object (cookie jar) the
  call goes through, \<open>None\<close> for a call with no cookie persistence.
\<close>

record request =
  meth :: string
  url :: string
  params :: "(string \<times> string) list"
  headers :: "(string \<times> string) list"
  body :: body
  auth :: auth
  allow_redirects :: bool
  timeout :: "rat option"
  stream :: bool
  cookiejar :: "nat option"

record response =
  status_code :: int
  resp_url :: string
  resp_headers :: "(string \<times> string) list"
  content :: string
  json_body :: "json option"

text \<open>
  The exception classes the scripts name or can meet. \<open>Timeout\<close> is the timeout class of
  the transport library (\<^verbatim>\<open>requests.exceptions.Timeout\<close>,
  \<^verbatim>\<open>urllib3.exceptions.TimeoutError\<close>, \<^verbatim>\<open>asyncio.TimeoutError\<close>); \<open>TransportError\<close> is any
  other failure of a call in the library (\<^verbatim>\<open>RequestException\<close>, \<^verbatim>\<open>ClientError\<close>,
  \<^verbatim>\<open>URLError\<close>, \<^verbatim>\<open>ProtocolError\<close>); \<open>MaxRetryError\<close> is
  \<^verbatim>\<open>urllib3.exceptions.MaxRetryError\<close>, which is not a subclass of urllib3's
  \<^verbatim>\<open>TimeoutError\<close>; \<open>HTTPError\<close> is \<^verbatim>\<open>urllib.error.HTTPError\<close>, which carries the
  response. \<open>UnicodeEncodeError\<close> and \<open>OSError\<close> are what writing a file can raise.
  \<open>KeyboardInterrupt\<close> stands for the exceptions that are not subclasses of
  \<^verbatim>\<open>Exception\<close>.
\<close>

datatype py_exn = Timeout | TransportError | MaxRetryError | HTTPError response
  | ValueError | AttributeError | UnboundLocalError | FileNotFoundError
  | UnicodeEncodeError | OSError
  | KeyboardInterrupt

fun is_Exception :: "py_exn \<Rightarrow> bool" where
  "is_Exception KeyboardInterrupt = False"
| "is_Exception _ = True"

fun is_RequestException :: "py_exn \<Rightarrow> bool" where
  "is_RequestException Timeout = True"
| "is_RequestException TransportError = True"
| "is_RequestException _ = False"

datatype arg = AInt int | ATime rat | AStr string | AJson json | AExn py_exn
  | AInts "int list" | AStrs "string list"

datatype line = Line string "arg list"

text \<open>
  What has happened on the wire so far: every call that was issued, with its outcome (the
  response, or the exception the library raised), and every batch of concurrent calls with
  the outcome of the batch. \<open>issued\<close> lists the requests alone, in the order of issue.
\<close>

datatype event = Call request "py_exn + response"
  | Batch "request list" "py_exn + response list"

fun requests_of :: "event \<Rightarrow> request list" where
  "requests_of (Call rq outcome) = [rq]"
| "requests_of (Batch rqs outcome) = rqs"

definition issued :: "event list \<Rightarrow> request list" where
  "issued events = concat (map requests_of events)"

record world =
  clock :: rat
  log :: "event list"
  files :: "(string \<times> string) list"
  out :: "line list"
  njars :: nat

text \<open>
  The environment: \<open>send rq history\<close> is what the client library and the server make of
  one call (a response or a raised exception) and how much the wall clock moved meanwhile;
  \<open>gather\<close> is the same for a batch issued concurrently, its responses in completion
  order; \<open>iter_content\<close> and \<open>iter_lines\<close> are the chunked reads of a response body;
  \<open>mktemp\<close> is the name the operating system gives a new temporary file, or the
  exception when it cannot create one; \<open>encode\<close> is the text as bytes in the encoding of
  the locale (a file opened with \<^verbatim>\<open>mode='w'\<close> and no \<^verbatim>\<open>encoding\<close> writes in it), or the
  exception the write raises. For \<^verbatim>\<open>urllib3\<close>, whose connection pool repeats a failed
  attempt, \<open>send\<close> is one attempt.
\<close>

record env =
  send :: "request \<Rightarrow> event list \<Rightarrow> (py_exn + response) \<times> rat"
  gather :: "request list \<Rightarrow> event list \<Rightarrow> (py_exn + response list) \<times> rat"
  iter_content :: "nat \<Rightarrow> response \<Rightarrow> string list"
  iter_lines :: "response \<Rightarrow> string list"
  mktemp :: "string list \<Rightarrow> py_exn + string"
  encode :: "string \<Rightarrow> py_exn + string"

section \<open>Programs: state passing with exceptions\<close>

type_synonym 'a prog = "world \<Rightarrow> (py_exn + 'a) \<times> world"

definition ret :: "'a \<Rightarrow> 'a prog" where
  "ret x = (\<lambda>w. (Inr x, w))"

definition raise :: "py_exn \<Rightarrow> 'a prog" where
  "raise e = (\<lambda>w. (Inl e, w))"

definition pbind :: "'a prog \<Rightarrow> ('a \<Rightarrow> 'b prog) \<Rightarrow> 'b prog" where
  "pbind m f = (\<lambda>w. case m w of (Inl e, w') \<Rightarrow> (Inl e, w') | (Inr x, w') \<Rightarrow> f x w')"

definition try_except :: "'a prog \<Rightarrow> (py_exn \<Rightarrow> 'a prog) \<Rightarrow> 'a prog" where
  "try_except m handler =
     (\<lambda>w. case m w of (Inl e, w') \<Rightarrow> handler e w' | (Inr x, w') \<Rightarrow> (Inr x, w'))"

definition try_finally :: "'a prog \<Rightarrow> unit prog \<Rightarrow> 'a prog" where
  "try_finally m cleanup =
     (\<lambda>w. case m w of (r, w') \<Rightarrow>
        (case cleanup w' of (Inl e, w'') \<Rightarrow> (Inl e, w'') | (Inr u, w'') \<Rightarrow> (r, w'')))"

definition print :: "line \<Rightarrow> unit prog" where
  "print l = (\<lambda>w. (Inr (), w\<lparr>out := out w @ [l]\<rparr>))"

definition time_time :: "rat prog" where
  "time_time = (\<lambda>w. (Inr (clock w), w))"

definition call :: "env \<Rightarrow> request \<Rightarrow> response prog" where
  "call ev rq = (\<lambda>w. case send ev rq (log w) of
      (r, d) \<Rightarrow> (r, w\<lparr>clock := clock w + d, log := log w @ [Call rq r]\<rparr>))"

section \<open>The timing decorator\<close>

text \<open>
  \<^verbatim>\<open>measure_time\<close> (the same in the five synchronous scripts) and \<^verbatim>\<open>measure_time_async\<close>
  (aiohttp): read the clock, run the function, read the clock again, return the pair. There
  is no \<^verbatim>\<open>try\<close> in the wrapper: an exception of the function leaves it before the second
  reading.
\<close>

definition measure_time :: "'a prog \<Rightarrow> ('a \<times> rat) prog" where
  "measure_time func =
     pbind time_time (\<lambda>start_time.
     pbind func (\<lambda>result.
     pbind time_time (\<lambda>end_time.
     ret (result, end_time - start_time))))"

definition measure_time_async :: "'a prog \<Rightarrow> ('a \<times> rat) prog" where
  "measure_time_async func =
     pbind time_time (\<lambda>start_time.
     pbind func (\<lambda>result.
     pbind time_time (\<lambda>end_time.
     ret (result, end_time - start_time))))"

section \<open>requests\_lib.py: the scenario catalogue\<close>

text \<open>
  Names without a suffix are the functions of \<^verbatim>\<open>requests_lib.py\<close>; the functions of the
  other scripts carry the library as a suffix (\<open>_urllib\<close> for \<^verbatim>\<open>urllib_request_lib.py\<close>,
  \<open>_urllib3\<close>, \<open>_aiohttp\<close>, \<open>_httplib2\<close>).
\<close>

definition BASE_URL :: string where
  "BASE_URL = ''https://httpbin.org''"

definition http :: "string \<Rightarrow> string \<Rightarrow> request" where
  "http m u = \<lparr>meth = m, url = u, params = [], headers = [], body = NoBody, auth = NoAuth,
     allow_redirects = True, timeout = None, stream = False, cookiejar = None\<rparr>"

definition seq :: "unit prog \<Rightarrow> 'a prog \<Rightarrow> 'a prog" where
  "seq m k = pbind m (\<lambda>u. k)"

definition raw_text :: string where
  "raw_text = ''Eto prosto tekstovye dannye dlya otpravki''"

definition file_text :: string where
  "file_text = ''Eto testovyi fail dlya zagruzki'' @ [CHR 0x0A] @ ''Vtoraya stroka faila''"

definition file_description :: string where
  "file_description = ''Testovyi fail''"

definition get_request :: "env \<Rightarrow> (response \<times> rat) prog" where
  "get_request ev = measure_time (call ev (http ''GET'' (BASE_URL @ ''/get'')))"

definition post_json_request :: "env \<Rightarrow> (response \<times> rat) prog" where
  "post_json_request ev = measure_time (call ev
     ((http ''POST'' (BASE_URL @ ''/post''))
        \<lparr>body := JsonBody (JObj [(''name'', JStr ''test''), (''value'', JInt 123)])\<rparr>))"

definition put_request :: "env \<Rightarrow> (response \<times> rat) prog" where
  "put_request ev = measure_time (call ev
     ((http ''PUT'' (BASE_URL @ ''/put''))\<lparr>body := JsonBody (JObj [(''updated'', JBool True)])\<rparr>))"

definition delete_request :: "env \<Rightarrow> (response \<times> rat) prog" where
  "delete_request ev = measure_time (call ev (http ''DELETE'' (BASE_URL @ ''/delete'')))"

definition get_with_params :: "env \<Rightarrow> (response \<times> rat) prog" where
  "get_with_params ev = measure_time (call ev
     ((http ''GET'' (BASE_URL @ ''/get''))
        \<lparr>params := [(''param1'', ''value1''), (''param2'', ''value2'')]\<rparr>))"

definition get_with_headers :: "env \<Rightarrow> (response \<times> rat) prog" where
  "get_with_headers ev = measure_time (call ev
     ((http ''GET'' (BASE_URL @ ''/headers''))
        \<lparr>headers := [(''Custom-Header'', ''test-value''), (''Authorization'', ''Bearer token123'')]\<rparr>))"

definition get_user_agent :: "env \<Rightarrow> (response \<times> rat) prog" where
  "get_user_agent ev = measure_time (call ev
     ((http ''GET'' (BASE_URL @ ''/user-agent''))
        \<lparr>headers := [(''User-Agent'', ''RequestsTestClient/1.0'')]\<rparr>))"

definition post_json :: "env \<Rightarrow> (response \<times> rat) prog" where
  "post_json ev = measure_time (call ev
     ((http ''POST'' (BASE_URL @ ''/post''))
        \<lparr>body := JsonBody (JObj [(''key'', JStr ''value''), (''number'', JInt 42)])\<rparr>))"

definition post_form_data :: "env \<Rightarrow> (response \<times> rat) prog" where
  "post_form_data ev = measure_time (call ev
     ((http ''POST'' (BASE_URL @ ''/post''))
        \<lparr>body := FormBody [(''field1'', ''value1''), (''field2'', ''value2'')]\<rparr>))"

definition post_raw_text :: "env \<Rightarrow> (response \<times> rat) prog" where
  "post_raw_text ev = measure_time (call ev
     ((http ''POST'' (BASE_URL @ ''/post''))
        \<lparr>headers := [(''Content-Type'', ''text/plain'')], body := RawBody raw_text\<rparr>))"

definition basic_auth_request :: "env \<Rightarrow> (response \<times> rat) prog" where
  "basic_auth_request ev = measure_time (call ev
     ((http ''GET'' (BASE_URL @ ''/basic-auth/user/pass''))\<lparr>auth := BasicAuth ''user'' ''pass''\<rparr>))"

definition digest_auth_request :: "env \<Rightarrow> (response \<times> rat) prog" where
  "digest_auth_request ev = measure_time (call ev
     ((http ''GET'' (BASE_URL @ ''/digest-auth/auth/user/pass''))
        \<lparr>auth := DigestAuth ''user'' ''pass''\<rparr>))"

definition set_cookies_request :: "env \<Rightarrow> (response \<times> rat) prog" where
  "set_cookies_request ev =
     measure_time (call ev (http ''GET'' (BASE_URL @ ''/cookies/set?session=abc123'')))"

text \<open>
  A \<^verbatim>\<open>requests.Session\<close> object: its cookie jar (named by a number) and its persistent
  headers. \<^verbatim>\<open>Session()\<close> makes a new jar; \<^verbatim>\<open>session.get(url)\<close> is a call through that jar
  with the session's headers.
\<close>

record session =
  jar :: nat
  session_headers :: "(string \<times> string) list"

definition Session :: "session prog" where
  "Session = (\<lambda>w. (Inr \<lparr>jar = njars w, session_headers = []\<rparr>, w\<lparr>njars := njars w + 1\<rparr>))"

definition session_get :: "env \<Rightarrow> session \<Rightarrow> string \<Rightarrow> response prog" where
  "session_get ev s u =
     call ev ((http ''GET'' u)\<lparr>headers := session_headers s, cookiejar := Some (jar s)\<rparr>)"

definition get_cookies_request :: "env \<Rightarrow> session \<Rightarrow> (response \<times> rat) prog" where
  "get_cookies_request ev s = measure_time (session_get ev s (BASE_URL @ ''/cookies''))"

definition error_404_request :: "env \<Rightarrow> (response \<times> rat) prog" where
  "error_404_request ev = measure_time (call ev (http ''GET'' (BASE_URL @ ''/status/404'')))"

definition error_500_request :: "env \<Rightarrow> (response \<times> rat) prog" where
  "error_500_request ev = measure_time (call ev (http ''GET'' (BASE_URL @ ''/status/500'')))"

definition error_429_request :: "env \<Rightarrow> (response \<times> rat) prog" where
  "error_429_request ev = measure_time (call ev (http ''GET'' (BASE_URL @ ''/status/429'')))"

definition redirect_3_request :: "env \<Rightarrow> (response \<times> rat) prog" where
  "redirect_3_request ev = measure_time (call ev (http ''GET'' (BASE_URL @ ''/redirect/3'')))"

definition redirect_to_request :: "env \<Rightarrow> (response \<times> rat) prog" where
  "redirect_to_request ev = measure_time (call ev
     (http ''GET'' (BASE_URL @ ''/redirect-to?url='' @ BASE_URL @ ''/get'')))"

definition no_redirect_request :: "env \<Rightarrow> (response \<times> rat) prog" where
  "no_redirect_request ev = measure_time (call ev
     ((http ''GET'' (BASE_URL @ ''/redirect/1''))\<lparr>allow_redirects := False\<rparr>))"

definition delay_1_request :: "env \<Rightarrow> (response \<times> rat) prog" where
  "delay_1_request ev = measure_time (call ev (http ''GET'' (BASE_URL @ ''/delay/1'')))"

definition delay_5_timeout_request :: "env \<Rightarrow> (response option \<times> rat) prog" where
  "delay_5_timeout_request ev = measure_time
     (try_except
        (pbind (call ev ((http ''GET'' (BASE_URL @ ''/delay/5''))\<lparr>timeout := Some 3\<rparr>))
           (\<lambda>response. ret (Some response)))
        (\<lambda>e. if e = Timeout then ret None else raise e))"

definition stream_lines_request :: "env \<Rightarrow> ((response \<times> int) \<times> rat) prog" where
  "stream_lines_request ev = measure_time
     (pbind (call ev ((http ''GET'' (BASE_URL @ ''/stream/10''))\<lparr>stream := True\<rparr>))
        (\<lambda>response.
           let stream_lines = filter (\<lambda>line. line \<noteq> []) (iter_lines ev response)
           in ret (response, int (length stream_lines))))"

definition stream_bytes_request :: "env \<Rightarrow> ((response \<times> int) \<times> rat) prog" where
  "stream_bytes_request ev = measure_time
     (pbind (call ev ((http ''GET'' (BASE_URL @ ''/bytes/1024''))\<lparr>stream := True\<rparr>))
        (\<lambda>response.
           let chunks = iter_content ev 256 response;
               total_bytes = sum_list (map (\<lambda>chunk. int (length chunk)) chunks)
           in ret (response, total_bytes)))"

definition gzip_request :: "env \<Rightarrow> (response \<times> rat) prog" where
  "gzip_request ev = measure_time (call ev (http ''GET'' (BASE_URL @ ''/gzip'')))"

definition brotli_request :: "env \<Rightarrow> (response \<times> rat) prog" where
  "brotli_request ev = measure_time (call ev (http ''GET'' (BASE_URL @ ''/brotli'')))"

definition delay_urls :: "string list" where
  "delay_urls = [BASE_URL @ ''/delay/1'', BASE_URL @ ''/delay/2'', BASE_URL @ ''/delay/3'']"

fun get_each :: "env \<Rightarrow> string list \<Rightarrow> int list \<Rightarrow> int list prog" where
  "get_each ev [] results = ret results"
| "get_each ev (u # urls) results =
     pbind (call ev (http ''GET'' u))
       (\<lambda>response. get_each ev urls (results @ [status_code response]))"

definition sequential_delays :: "env \<Rightarrow> (int list \<times> rat) prog" where
  "sequential_delays ev = measure_time (get_each ev delay_urls [])"

text \<open>
  The thread pool of \<^verbatim>\<open>parallel_delays\<close>: the three calls are submitted together and the
  status codes are collected in completion order; the first exception of a worker is
  raised when its result is read.
\<close>

definition call_gather :: "env \<Rightarrow> request list \<Rightarrow> response list prog" where
  "call_gather ev rqs = (\<lambda>w. case gather ev rqs (log w) of
      (r, d) \<Rightarrow> (r, w\<lparr>clock := clock w + d, log := log w @ [Batch rqs r]\<rparr>))"

definition parallel_delays :: "env \<Rightarrow> (int list \<times> rat) prog" where
  "parallel_delays ev = measure_time
     (pbind (call_gather ev (map (http ''GET'') delay_urls))
        (\<lambda>responses. ret (map status_code responses)))"

text \<open>
  Temporary files: \<open>files\<close> lists the paths that exist with their contents.
  \<^verbatim>\<open>NamedTemporaryFile(mode='w', delete=False)\<close> creates an empty file under a name of the
  system's choice, or raises and creates none; \<^verbatim>\<open>temp_file.write(text)\<close> encodes the text
  in the encoding of the locale and puts it into the file, or raises and leaves the file
  as it is (leaving the \<^verbatim>\<open>with\<close> block closes the file and, with \<^verbatim>\<open>delete=False\<close>, does not
  remove it); \<^verbatim>\<open>open(path, 'rb')\<close> and \<^verbatim>\<open>os.unlink(path)\<close> raise when the path does not
  exist. In the three scripts the \<^verbatim>\<open>with\<close> block that creates and writes the file stands
  before the \<^verbatim>\<open>try\<close> whose \<^verbatim>\<open>finally\<close> removes it.
\<close>

definition NamedTemporaryFile :: "env \<Rightarrow> string prog" where
  "NamedTemporaryFile ev = (\<lambda>w.
     case mktemp ev (map fst (files w)) of
       Inl e \<Rightarrow> (Inl e, w)
     | Inr p \<Rightarrow> (Inr p, w\<lparr>files := (p, []) # filter (\<lambda>(q, c). q \<noteq> p) (files w)\<rparr>))"

definition file_write :: "env \<Rightarrow> string \<Rightarrow> string \<Rightarrow> unit prog" where
  "file_write ev p text = (\<lambda>w.
     case encode ev text of
       Inl e \<Rightarrow> (Inl e, w)
     | Inr bytes \<Rightarrow> (Inr (), w\<lparr>files := (p, bytes) # filter (\<lambda>(q, c). q \<noteq> p) (files w)\<rparr>))"

definition open_rb :: "string \<Rightarrow> string prog" where
  "open_rb p = (\<lambda>w. case map_of (files w) p of
      None \<Rightarrow> (Inl FileNotFoundError, w)
    | Some c \<Rightarrow> (Inr c, w))"

definition os_unlink :: "string \<Rightarrow> unit prog" where
  "os_unlink p = (\<lambda>w. case map_of (files w) p of
      None \<Rightarrow> (Inl FileNotFoundError, w)
    | Some c \<Rightarrow> (Inr (), w\<lparr>files := filter (\<lambda>(q, c). q \<noteq> p) (files w)\<rparr>))"

definition file_upload_request :: "env \<Rightarrow> (response \<times> rat) prog" where
  "file_upload_request ev = measure_time
     (pbind (NamedTemporaryFile ev) (\<lambda>temp_file_path.
      seq (file_write ev temp_file_path file_text)
        (try_finally
          (pbind (open_rb temp_file_path) (\<lambda>file.
             call ev ((http ''POST'' (BASE_URL @ ''/post''))
               \<lparr>body := MultipartBody [(''description'', file_description)]
                          [(''file'', ''test.txt'', file, ''text/plain'')]\<rparr>)))
          (os_unlink temp_file_path))))"

definition json_response_request :: "env \<Rightarrow> (response \<times> rat) prog" where
  "json_response_request ev = measure_time (call ev (http ''GET'' (BASE_URL @ ''/json'')))"

definition xml_response_request :: "env \<Rightarrow> (response \<times> rat) prog" where
  "xml_response_request ev = measure_time (call ev (http ''GET'' (BASE_URL @ ''/xml'')))"

definition html_response_request :: "env \<Rightarrow> (response \<times> rat) prog" where
  "html_response_request ev = measure_time (call ev (http ''GET'' (BASE_URL @ ''/html'')))"

definition image_response_request :: "env \<Rightarrow> (response \<times> rat) prog" where
  "image_response_request ev = measure_time (call ev (http ''GET'' (BASE_URL @ ''/image/png'')))"

definition session_set_cookie :: "env \<Rightarrow> session \<Rightarrow> (response \<times> rat) prog" where
  "session_set_cookie ev s =
     measure_time (session_get ev s (BASE_URL @ ''/cookies/set?session=test''))"

definition session_get_cookie :: "env \<Rightarrow> session \<Rightarrow> (response \<times> rat) prog" where
  "session_get_cookie ev s = measure_time (session_get ev s (BASE_URL @ ''/cookies''))"

definition session_headers_request :: "env \<Rightarrow> session \<Rightarrow> (response \<times> rat) prog" where
  "session_headers_request ev s = measure_time (session_get ev s (BASE_URL @ ''/headers''))"

section \<open>requests\_lib.py: the test groups\<close>

text \<open>
  \<^verbatim>\<open>response.json()\<close> raises \<^verbatim>\<open>ValueError\<close> when the body is not JSON; \<^verbatim>\<open>.get(key, default)\<close>
  and \<^verbatim>\<open>.keys()\<close> exist on a dictionary only. A printed f-string is recorded as its label
  and the values it formats.
\<close>

definition response_json :: "response \<Rightarrow> json prog" where
  "response_json r = (case json_body r of None \<Rightarrow> raise ValueError | Some j \<Rightarrow> ret j)"

definition json_get :: "json \<Rightarrow> string \<Rightarrow> json \<Rightarrow> json prog" where
  "json_get j k dflt = (case j of
      JObj kvs \<Rightarrow> ret (case map_of kvs k of None \<Rightarrow> dflt | Some v \<Rightarrow> v)
    | _ \<Rightarrow> raise AttributeError)"

definition json_keys :: "json \<Rightarrow> string list prog" where
  "json_keys j = (case j of JObj kvs \<Rightarrow> ret (map fst kvs) | _ \<Rightarrow> raise AttributeError)"

definition report :: "string \<Rightarrow> response \<Rightarrow> rat \<Rightarrow> unit prog" where
  "report label response t = print (Line label [AInt (status_code response), ATime t])"

type_synonym results = "(string \<times> rat) list"

definition test_basic_requests :: "env \<Rightarrow> results prog" where
  "test_basic_requests ev =
     seq (print (Line ''=== 1. Basic requests ==='' []))
     (pbind (get_request ev) (\<lambda>(response, get_time).
      seq (report ''GET request'' response get_time)
     (pbind (post_json_request ev) (\<lambda>(response, post_time).
      seq (report ''POST request'' response post_time)
     (pbind (put_request ev) (\<lambda>(response, put_time).
      seq (report ''PUT request'' response put_time)
     (pbind (delete_request ev) (\<lambda>(response, delete_time).
      seq (report ''DELETE request'' response delete_time)
     (ret [(''get_time'', get_time), (''post_time'', post_time),
           (''put_time'', put_time), (''delete_time'', delete_time)])))))))))"

definition test_params_and_headers :: "env \<Rightarrow> results prog" where
  "test_params_and_headers ev =
     seq (print (Line ''=== 2. Parameters and headers ==='' []))
     (pbind (get_with_params ev) (\<lambda>(response, params_time).
      seq (report ''GET with parameters'' response params_time)
     (pbind (get_with_headers ev) (\<lambda>(response, headers_time).
      seq (report ''Custom headers'' response headers_time)
     (pbind (get_user_agent ev) (\<lambda>(response, ua_time).
      seq (report ''User-Agent'' response ua_time)
     (ret [(''params_time'', params_time), (''headers_time'', headers_time),
           (''ua_time'', ua_time)])))))))"

definition test_request_body_formats :: "env \<Rightarrow> results prog" where
  "test_request_body_formats ev =
     seq (print (Line ''=== 3. Request body formats ==='' []))
     (pbind (post_json ev) (\<lambda>(response, json_time).
      seq (report ''JSON data'' response json_time)
     (pbind (post_form_data ev) (\<lambda>(response, form_time).
      seq (report ''Form data'' response form_time)
     (pbind (post_raw_text ev) (\<lambda>(response, text_time).
      seq (report ''Raw text'' response text_time)
     (ret [(''json_time'', json_time), (''form_time'', form_time),
           (''text_time'', text_time)])))))))"

definition test_authentication :: "env \<Rightarrow> results prog" where
  "test_authentication ev =
     seq (print (Line ''=== 4. Authentication ==='' []))
     (pbind (basic_auth_request ev) (\<lambda>(response, basic_time).
      seq (report ''Basic Auth'' response basic_time)
     (pbind (digest_auth_request ev) (\<lambda>(response, digest_time).
      seq (report ''Digest Auth'' response digest_time)
     (ret [(''basic_time'', basic_time), (''digest_time'', digest_time)])))))"

definition test_cookies :: "env \<Rightarrow> results prog" where
  "test_cookies ev =
     seq (print (Line ''=== 5. Cookies ==='' []))
     (pbind (set_cookies_request ev) (\<lambda>(response, set_cookie_time).
      seq (report ''Set cookie'' response set_cookie_time)
     (pbind Session (\<lambda>session.
      pbind (session_get ev session (BASE_URL @ ''/cookies/set?session=abc123'')) (\<lambda>unused.
      pbind (get_cookies_request ev session) (\<lambda>(response, get_cookie_time).
      seq (report ''Get cookies'' response get_cookie_time)
     (pbind (response_json response) (\<lambda>data.
      pbind (json_get data ''cookies'' (JObj [])) (\<lambda>cookies.
      seq (print (Line ''Cookies in response'' [AJson cookies]))
     (ret [(''set_cookie_time'', set_cookie_time),
           (''get_cookie_time'', get_cookie_time)]))))))))))"

text \<open>
  \<^verbatim>\<open>test_error_handling\<close>: each scenario sits in its own \<^verbatim>\<open>try\<close> that catches
  \<^verbatim>\<open>RequestException\<close>; the local \<^verbatim>\<open>error_time\<close> keeps the value of the last scenario that
  returned, and is unbound when none did.
\<close>

definition error_step ::
  "string \<Rightarrow> string \<Rightarrow> (response \<times> rat) prog \<Rightarrow> rat option \<Rightarrow> rat option prog" where
  "error_step label exn_label scenario error_time =
     try_except
       (pbind scenario (\<lambda>(response, t).
          seq (report label response t) (ret (Some t))))
       (\<lambda>e. if is_RequestException e
             then seq (print (Line exn_label [AExn e])) (ret error_time)
             else raise e)"

definition test_error_handling :: "env \<Rightarrow> results prog" where
  "test_error_handling ev =
     seq (print (Line ''=== 6. Error handling ==='' []))
     (pbind (error_step ''404 error'' ''Exception 404'' (error_404_request ev) None) (\<lambda>t1.
      pbind (error_step ''500 error'' ''Exception 500'' (error_500_request ev) t1) (\<lambda>t2.
      pbind (error_step ''429 error'' ''Exception 429'' (error_429_request ev) t2) (\<lambda>t3.
      (case t3 of
         None \<Rightarrow> raise UnboundLocalError
       | Some error_time \<Rightarrow> ret [(''error_handling_time'', error_time)])))))"

definition test_redirects :: "env \<Rightarrow> results prog" where
  "test_redirects ev =
     seq (print (Line ''=== 7. Redirects ==='' []))
     (pbind (redirect_3_request ev) (\<lambda>(response, redirect_time).
      seq (report ''Automatic redirects'' response redirect_time)
     (seq (print (Line ''Final URL'' [AStr (resp_url response)]))
     (pbind (redirect_to_request ev) (\<lambda>(response, redirect_to_time).
      seq (report ''Redirect to URL'' response redirect_to_time)
     (pbind (no_redirect_request ev) (\<lambda>(response, no_redirect_time).
      seq (report ''No redirects'' response no_redirect_time)
     (ret [(''redirect_time'', redirect_time), (''redirect_to_time'', redirect_to_time),
           (''no_redirect_time'', no_redirect_time)]))))))))"

definition test_timeouts :: "env \<Rightarrow> results prog" where
  "test_timeouts ev =
     seq (print (Line ''=== 8. Timeouts ==='' []))
     (pbind (delay_1_request ev) (\<lambda>(response, delay1_time).
      seq (report ''Delay 1s'' response delay1_time)
     (pbind (delay_5_timeout_request ev) (\<lambda>(response, timeout_time).
      seq (case response of
             None \<Rightarrow> print (Line ''Timeout fired after'' [ATime timeout_time])
           | Some r \<Rightarrow> report ''Delay 5s with timeout 3s'' r timeout_time)
     (ret [(''delay1_time'', delay1_time), (''timeout_time'', timeout_time)])))))"

definition test_streaming :: "env \<Rightarrow> results prog" where
  "test_streaming ev =
     seq (print (Line ''=== 9. Streaming ==='' []))
     (pbind (stream_lines_request ev) (\<lambda>((response, stream_lines_count), stream_time).
      seq (report ''Streaming 10 lines'' response stream_time)
     (seq (print (Line ''Lines received'' [AInt stream_lines_count]))
     (pbind (stream_bytes_request ev) (\<lambda>((response, total_bytes), bytes_time).
      seq (print (Line ''Binary data''
             [AInt (status_code response), ATime bytes_time, AInt total_bytes]))
     (ret [(''stream_time'', stream_time), (''bytes_time'', bytes_time)]))))))"

definition test_compression :: "env \<Rightarrow> results prog" where
  "test_compression ev =
     seq (print (Line ''=== 10. Compression ==='' []))
     (pbind (gzip_request ev) (\<lambda>(response, gzip_time).
      seq (report ''GZIP decompression'' response gzip_time)
     (pbind (response_json response) (\<lambda>data.
      pbind (json_get data ''gzipped'' (JBool False)) (\<lambda>gzipped.
      seq (print (Line ''Gzipped'' [AJson gzipped]))
     (pbind (brotli_request ev) (\<lambda>(response, brotli_time).
      seq (report ''Brotli decompression'' response brotli_time)
     (pbind (response_json response) (\<lambda>data.
      pbind (json_get data ''brotli'' (JBool False)) (\<lambda>brotli.
      seq (print (Line ''Brotli compressed'' [AJson brotli]))
     (ret [(''gzip_time'', gzip_time), (''brotli_time'', brotli_time)])))))))))))"

definition test_async_parallel :: "env \<Rightarrow> results prog" where
  "test_async_parallel ev =
     seq (print (Line ''=== 11. Parallel requests ==='' []))
     (pbind (sequential_delays ev) (\<lambda>(sequential_results, sequential_time).
      seq (print (Line ''Sequential'' [ATime sequential_time, AInts sequential_results]))
     (pbind (parallel_delays ev) (\<lambda>(parallel_results, parallel_time).
      seq (print (Line ''Parallel'' [ATime parallel_time, AInts parallel_results]))
     (ret [(''sequential_time'', sequential_time), (''parallel_time'', parallel_time)])))))"

definition test_file_upload :: "env \<Rightarrow> results prog" where
  "test_file_upload ev =
     seq (print (Line ''=== 12. File upload ==='' []))
     (pbind (file_upload_request ev) (\<lambda>(response, upload_time).
      seq (report ''File upload'' response upload_time)
     (pbind (response_json response) (\<lambda>response_data.
      pbind (json_get response_data ''files'' (JObj [])) (\<lambda>files_info.
      pbind (json_keys files_info) (\<lambda>ks.
      seq (print (Line ''Files in request'' [AStrs ks]))
     (ret [(''upload_time'', upload_time)])))))))"

definition test_response_formats :: "env \<Rightarrow> results prog" where
  "test_response_formats ev =
     seq (print (Line ''=== 13. Response formats ==='' []))
     (pbind (json_response_request ev) (\<lambda>(response, json_time).
      pbind (response_json response) (\<lambda>json_data.
      seq (report ''JSON'' response json_time)
     (pbind (json_keys json_data) (\<lambda>ks.
      seq (print (Line ''JSON fields'' [AStrs ks]))
     (pbind (xml_response_request ev) (\<lambda>(response, xml_time).
      seq (print (Line ''XML''
             [AInt (status_code response), ATime xml_time, AInt (int (length (content response)))]))
     (pbind (html_response_request ev) (\<lambda>(response, html_time).
      seq (print (Line ''HTML''
             [AInt (status_code response), ATime html_time, AInt (int (length (content response)))]))
     (pbind (image_response_request ev) (\<lambda>(response, image_time).
      seq (print (Line ''PNG image''
             [AInt (status_code response), ATime image_time, AInt (int (length (content response)))]))
     (ret [(''json_time'', json_time), (''xml_time'', xml_time),
           (''html_time'', html_time), (''image_time'', image_time)]))))))))))))"

definition test_sessions :: "env \<Rightarrow> results prog" where
  "test_sessions ev =
     seq (print (Line ''=== 14. Sessions ==='' []))
     (pbind Session (\<lambda>session.
      pbind (session_set_cookie ev session) (\<lambda>(response, set_session_time).
      seq (report ''Set session'' response set_session_time)
     (pbind (session_get_cookie ev session) (\<lambda>(response, get_session_time).
      seq (report ''Get session'' response get_session_time)
     (pbind (response_json response) (\<lambda>data.
      pbind (json_get data ''cookies'' (JObj [])) (\<lambda>cookies.
      seq (print (Line ''Cookies in session'' [AJson cookies]))
     (pbind (session_headers_request ev
               (session\<lparr>session_headers :=
                  session_headers session @ [(''X-Session-Header'', ''persistent-value'')]\<rparr>))
        (\<lambda>(response, headers_session_time).
      seq (report ''Persistent headers'' response headers_session_time)
     (ret [(''set_session_time'', set_session_time), (''get_session_time'', get_session_time),
           (''headers_session_time'', headers_session_time)])))))))))))"

section \<open>The session aggregator\<close>

text \<open>
  \<^verbatim>\<open>run_all_tests\<close> is the same in the six scripts but for the banner and the list of
  groups. One \<^verbatim>\<open>try\<close> holds all the assignments \<^verbatim>\<open>all_results[name] = test()\<close>, so the first
  exception leaves the block with the dictionary as filled so far; \<^verbatim>\<open>except Exception\<close>
  prints it; the summary loop runs in both cases.
\<close>

type_synonym all_results = "(string \<times> results) list"

fun dict_set :: "(string \<times> 'v) list \<Rightarrow> string \<Rightarrow> 'v \<Rightarrow> (string \<times> 'v) list" where
  "dict_set [] k v = [(k, v)]"
| "dict_set ((k', v') # d) k v = (if k' = k then (k, v) # d else (k', v') # dict_set d k v)"

fun run_groups ::
  "(string \<times> results prog) list \<Rightarrow> all_results \<Rightarrow> world \<Rightarrow> (py_exn option \<times> all_results) \<times> world"
where
  "run_groups [] all_results w = ((None, all_results), w)"
| "run_groups ((name, test) # rest) all_results w =
     (case test w of
        (Inl e, w') \<Rightarrow> ((Some e, all_results), w')
      | (Inr r, w') \<Rightarrow> run_groups rest (dict_set all_results name r) w')"

definition endswith :: "string \<Rightarrow> string \<Rightarrow> bool" where
  "endswith s suffix =
     (length suffix \<le> length s \<and> drop (length s - length suffix) s = suffix)"

definition times_of :: "results \<Rightarrow> rat list" where
  "times_of results = map snd (filter (\<lambda>(k, v). endswith k ''_time'') results)"

fun print_summary :: "all_results \<Rightarrow> unit prog" where
  "print_summary [] = ret ()"
| "print_summary ((test_name, results) # rest) =
     seq (let times = times_of results
          in if times \<noteq> []
             then print (Line ''mean time''
                    [AStr test_name, ATime (sum_list times / of_nat (length times))])
             else ret ())
         (print_summary rest)"

definition run_all_tests :: "string \<Rightarrow> (string \<times> results prog) list \<Rightarrow> all_results prog" where
  "run_all_tests banner groups =
     seq (print (Line banner []))
       (\<lambda>w. case run_groups groups [] w of
          ((exn, all_results), w') \<Rightarrow>
            (let summary = seq (print (Line ''=== RESULTS SUMMARY ==='' []))
                             (seq (print_summary all_results) (ret all_results))
             in case exn of
                  None \<Rightarrow> summary w'
                | Some e \<Rightarrow>
                    if is_Exception e
                    then seq (print (Line ''Error while running tests'' [AExn e])) summary w'
                    else (Inl e, w')))"

definition run_all_tests_requests :: "env \<Rightarrow> all_results prog" where
  "run_all_tests_requests ev = run_all_tests ''=== TESTING THE REQUESTS LIBRARY ===''
     [(''basic'', test_basic_requests ev),
      (''params'', test_params_and_headers ev),
      (''body_formats'', test_request_body_formats ev),
      (''auth'', test_authentication ev),
      (''cookies'', test_cookies ev),
      (''errors'', test_error_handling ev),
      (''redirects'', test_redirects ev),
      (''timeouts'', test_timeouts ev),
      (''streaming'', test_streaming ev),
      (''compression'', test_compression ev),
      (''parallel'', test_async_parallel ev),
      (''upload'', test_file_upload ev),
      (''formats'', test_response_formats ev),
      (''sessions'', test_sessions ev)]"

text \<open>The lines the summary loop prints for a dictionary of results, as a list.\<close>

definition summary_lines :: "all_results \<Rightarrow> line list" where
  "summary_lines all_results =
     map (\<lambda>(test_name, results). Line ''mean time''
            [AStr test_name, ATime (sum_list (times_of results) / of_nat (length (times_of results)))])
         (filter (\<lambda>(test_name, results). times_of results \<noteq> []) all_results)"

section \<open>urllib\_request\_lib.py\<close>

text \<open>
  \<^verbatim>\<open>urllib.request\<close> sends through an opener, a chain of handlers.
  \<^verbatim>\<open>build_opener(*handlers)\<close> of the standard library puts an instance of every default
  class in front of the handlers it is given, but for the default classes that one of the
  given handlers is an instance of. An opener follows redirects when its chain holds an
  \<^verbatim>\<open>HTTPRedirectHandler\<close>, and keeps cookies in the jar of its \<^verbatim>\<open>HTTPCookieProcessor\<close>.
  \<^verbatim>\<open>urlopen\<close> sends through the default opener, \<^verbatim>\<open>build_opener()\<close>. For a status outside
  2xx the library raises \<^verbatim>\<open>HTTPError\<close>, which carries the response. (A real opener
  leaves a handler that has nothing to handle, such as the proxy handler without proxies,
  out of its chain; the redirect handler is always in it, and only it matters here.)
\<close>

datatype handler = ProxyHandler | UnknownHandler | HTTPHandler | HTTPDefaultErrorHandler
  | HTTPRedirectHandler | FTPHandler | FileHandler | HTTPErrorProcessor | DataHandler
  | HTTPSHandler | HTTPCookieProcessor nat

record opener =
  handlers :: "handler list"
  addheaders :: "(string \<times> string) list"

definition default_classes :: "handler list" where
  "default_classes = [ProxyHandler, UnknownHandler, HTTPHandler, HTTPDefaultErrorHandler,
     HTTPRedirectHandler, FTPHandler, FileHandler, HTTPErrorProcessor, DataHandler,
     HTTPSHandler]"

definition build_opener :: "handler list \<Rightarrow> opener" where
  "build_opener hs =
     \<lparr>handlers = filter (\<lambda>klass. klass \<notin> set hs) default_classes @ hs, addheaders = []\<rparr>"

fun jar_of :: "handler list \<Rightarrow> nat option" where
  "jar_of [] = None"
| "jar_of (HTTPCookieProcessor j # hs) = Some j"
| "jar_of (h # hs) = jar_of hs"

definition opener_open :: "env \<Rightarrow> opener \<Rightarrow> request \<Rightarrow> response prog" where
  "opener_open ev opener rq =
     call ev (rq\<lparr>headers := headers rq @ addheaders opener,
                allow_redirects := (HTTPRedirectHandler \<in> set (handlers opener)),
                cookiejar := jar_of (handlers opener)\<rparr>)"

definition urlopen :: "env \<Rightarrow> request \<Rightarrow> response prog" where
  "urlopen ev rq = opener_open ev (build_opener []) rq"

definition CookieJar :: "nat prog" where
  "CookieJar = (\<lambda>w. (Inr (njars w), w\<lparr>njars := njars w + 1\<rparr>))"

definition returning_HTTPError :: "response prog \<Rightarrow> response prog" where
  "returning_HTTPError m =
     try_except m (\<lambda>e. case e of HTTPError r \<Rightarrow> ret r | _ \<Rightarrow> raise e)"

definition get_request_urllib :: "env \<Rightarrow> (response \<times> rat) prog" where
  "get_request_urllib ev = measure_time (urlopen ev (http ''GET'' (BASE_URL @ ''/get'')))"

definition basic_auth_request_urllib :: "env \<Rightarrow> (response \<times> rat) prog" where
  "basic_auth_request_urllib ev = measure_time (urlopen ev
     ((http ''GET'' (BASE_URL @ ''/basic-auth/user/pass''))
        \<lparr>headers := [(''Authorization'', ''Basic dXNlcjpwYXNz'')]\<rparr>))"

definition digest_auth_request_urllib :: "env \<Rightarrow> (response \<times> rat) prog" where
  "digest_auth_request_urllib ev = measure_time (urlopen ev (http ''GET'' (BASE_URL @ ''/get'')))"

definition get_cookies_request_urllib :: "env \<Rightarrow> (response \<times> rat) prog" where
  "get_cookies_request_urllib ev = measure_time
     (pbind CookieJar (\<lambda>cookie_jar.
      let opener = build_opener [HTTPCookieProcessor cookie_jar]
      in pbind (opener_open ev opener (http ''GET'' (BASE_URL @ ''/cookies/set?session=abc123'')))
           (\<lambda>unused. opener_open ev opener (http ''GET'' (BASE_URL @ ''/cookies'')))))"




definition no_redirect_opener :: opener where
  "no_redirect_opener =
     (let opener = (build_opener [])\<lparr>addheaders := [(''User-Agent'', ''Mozilla/5.0'')]\<rparr>;
          hs = filter (\<lambda>h. h \<noteq> HTTPRedirectHandler) (handlers opener)
      in build_opener hs)"

definition no_redirect_request_urllib :: "env \<Rightarrow> (response \<times> rat) prog" where
  "no_redirect_request_urllib ev = measure_time
     (returning_HTTPError
        (opener_open ev no_redirect_opener (http ''GET'' (BASE_URL @ ''/redirect/1''))))"

definition delay_5_timeout_request_urllib :: "env \<Rightarrow> (response option \<times> rat) prog" where
  "delay_5_timeout_request_urllib ev = measure_time
     (try_except
        (pbind (urlopen ev ((http ''GET'' (BASE_URL @ ''/delay/5''))\<lparr>timeout := Some 3\<rparr>))
           (\<lambda>response. ret (Some response)))
        (\<lambda>e. if is_Exception e then ret None else raise e))"

text \<open>
  The upload of \<^verbatim>\<open>urllib_request_lib.py\<close> sends the file as a form field: it reads the
  bytes and decodes them with \<^verbatim>\<open>errors='ignore'\<close>, which never raises; the field carries
  the content that was read.
\<close>

definition file_upload_request_urllib :: "env \<Rightarrow> (response \<times> rat) prog" where
  "file_upload_request_urllib ev = measure_time
     (pbind (NamedTemporaryFile ev) (\<lambda>temp_file_path.
      seq (file_write ev temp_file_path file_text)
        (try_finally
          (pbind (open_rb temp_file_path) (\<lambda>file_content.
             urlopen ev ((http ''POST'' (BASE_URL @ ''/post''))
               \<lparr>headers := [(''Content-Type'', ''application/x-www-form-urlencoded'')],
                body := FormBody [(''description'', file_description),
                                  (''file'', file_content)]\<rparr>)))
          (os_unlink temp_file_path))))"

definition test_authentication_urllib :: "env \<Rightarrow> results prog" where
  "test_authentication_urllib ev =
     seq (print (Line ''=== 4. Authentication ==='' []))
     (pbind (basic_auth_request_urllib ev) (\<lambda>(response, basic_time).
      seq (report ''Basic Auth'' response basic_time)
     (pbind (digest_auth_request_urllib ev) (\<lambda>(response, digest_time).
      seq (report ''Digest Auth (fallback)'' response digest_time)
     (ret [(''basic_time'', basic_time), (''digest_time'', digest_time)])))))"

section \<open>urllib3\_lib.py\<close>

text \<open>
  \<^verbatim>\<open>http.request(method, url, ...)\<close> on the module's \<^verbatim>\<open>PoolManager\<close>: no cookie jar;
  \<^verbatim>\<open>redirect=False\<close> is the no-follow policy and \<^verbatim>\<open>preload_content=False\<close> the streamed
  read. The script makes the pool with \<^verbatim>\<open>urllib3.PoolManager()\<close> and passes no
  \<^verbatim>\<open>retries\<close>, so every call runs under the library's default, \<^verbatim>\<open>Retry(total=3)\<close>: an
  attempt of a GET that fails in the transport, a timeout included, is repeated until
  three retries are used up, and then the pool raises \<^verbatim>\<open>MaxRetryError\<close>, whatever the
  failure of the last attempt was. All calls of the script modelled here are GETs. (The
  repetition of a call that was answered with a \<open>Retry-After\<close> header is not modelled.)
\<close>

fun retried :: "py_exn \<Rightarrow> bool" where
  "retried Timeout = True"
| "retried TransportError = True"
| "retried _ = False"

fun urlopen_urllib3 :: "env \<Rightarrow> request \<Rightarrow> nat \<Rightarrow> response prog" where
  "urlopen_urllib3 ev rq 0 =
     try_except (call ev rq) (\<lambda>e. if retried e then raise MaxRetryError else raise e)"
| "urlopen_urllib3 ev rq (Suc retries) =
     try_except (call ev rq) (\<lambda>e. if retried e then urlopen_urllib3 ev rq retries else raise e)"

definition request_urllib3 :: "env \<Rightarrow> request \<Rightarrow> response prog" where
  "request_urllib3 ev rq = urlopen_urllib3 ev rq 3"

definition get_request_urllib3 :: "env \<Rightarrow> (response \<times> rat) prog" where
  "get_request_urllib3 ev = measure_time (request_urllib3 ev (http ''GET'' (BASE_URL @ ''/get'')))"

definition basic_auth_request_urllib3 :: "env \<Rightarrow> (response \<times> rat) prog" where
  "basic_auth_request_urllib3 ev = measure_time (request_urllib3 ev
     ((http ''GET'' (BASE_URL @ ''/basic-auth/user/pass''))
        \<lparr>headers := [(''Authorization'', ''Basic dXNlcjpwYXNz'')]\<rparr>))"

definition digest_auth_request_urllib3 :: "env \<Rightarrow> (response \<times> rat) prog" where
  "digest_auth_request_urllib3 ev =
     measure_time (request_urllib3 ev (http ''GET'' (BASE_URL @ ''/get'')))"

definition get_cookies_request_urllib3 :: "env \<Rightarrow> (response \<times> rat) prog" where
  "get_cookies_request_urllib3 ev = measure_time (request_urllib3 ev
     ((http ''GET'' (BASE_URL @ ''/cookies''))\<lparr>headers := [(''Cookie'', ''session=abc123'')]\<rparr>))"

definition no_redirect_request_urllib3 :: "env \<Rightarrow> (response \<times> rat) prog" where
  "no_redirect_request_urllib3 ev = measure_time (request_urllib3 ev
     ((http ''GET'' (BASE_URL @ ''/redirect/1''))\<lparr>allow_redirects := False\<rparr>))"

definition delay_5_timeout_request_urllib3 :: "env \<Rightarrow> (response option \<times> rat) prog" where
  "delay_5_timeout_request_urllib3 ev = measure_time
     (try_except
        (pbind (request_urllib3 ev ((http ''GET'' (BASE_URL @ ''/delay/5''))\<lparr>timeout := Some 3\<rparr>))
           (\<lambda>response. ret (Some response)))
        (\<lambda>e. if e = Timeout then ret None else raise e))"

definition stream_bytes_request_urllib3 :: "env \<Rightarrow> ((response \<times> int) \<times> rat) prog" where
  "stream_bytes_request_urllib3 ev = measure_time
     (pbind (request_urllib3 ev ((http ''GET'' (BASE_URL @ ''/bytes/1024''))\<lparr>stream := True\<rparr>))
        (\<lambda>response.
           let chunks = iter_content ev 256 response;
               total_bytes = sum_list (map (\<lambda>chunk. int (length chunk)) chunks)
           in ret (response, total_bytes)))"

definition test_authentication_urllib3 :: "env \<Rightarrow> results prog" where
  "test_authentication_urllib3 ev =
     seq (print (Line ''=== 4. Authentication ==='' []))
     (pbind (basic_auth_request_urllib3 ev) (\<lambda>(response, basic_time).
      seq (report ''Basic Auth'' response basic_time)
     (pbind (digest_auth_request_urllib3 ev) (\<lambda>(response, digest_time).
      seq (report ''Digest Auth (fallback)'' response digest_time)
     (ret [(''basic_time'', basic_time), (''digest_time'', digest_time)])))))"

section \<open>aiohttp\_lib.py\<close>

text \<open>
  Each scenario is wrapped in \<^verbatim>\<open>with_aiohttp_session\<close>, which opens a new
  \<^verbatim>\<open>ClientSession\<close> (with its own cookie jar) for the call. The coroutines of a scenario run
  one after the other, so awaiting is sequencing. An aiohttp body is always read from the
  stream.
\<close>

definition ClientSession :: "session prog" where
  "ClientSession = (\<lambda>w. (Inr \<lparr>jar = njars w, session_headers = []\<rparr>, w\<lparr>njars := njars w + 1\<rparr>))"

definition with_aiohttp_session :: "(session \<Rightarrow> 'a prog) \<Rightarrow> 'a prog" where
  "with_aiohttp_session func = pbind ClientSession (\<lambda>session. func session)"

definition aiohttp_request :: "session \<Rightarrow> string \<Rightarrow> string \<Rightarrow> request" where
  "aiohttp_request s m u =
     (http m u)\<lparr>headers := session_headers s, stream := True, cookiejar := Some (jar s)\<rparr>"

definition get_cookies_request_aiohttp :: "env \<Rightarrow> (response \<times> rat) prog" where
  "get_cookies_request_aiohttp ev = measure_time_async (with_aiohttp_session (\<lambda>session.
     pbind (call ev (aiohttp_request session ''GET'' (BASE_URL @ ''/cookies/set?session=abc123'')))
       (\<lambda>unused. call ev (aiohttp_request session ''GET'' (BASE_URL @ ''/cookies'')))))"

definition stream_bytes_request_aiohttp :: "env \<Rightarrow> ((response \<times> int) \<times> rat) prog" where
  "stream_bytes_request_aiohttp ev = measure_time_async (with_aiohttp_session (\<lambda>session.
     pbind (call ev (aiohttp_request session ''GET'' (BASE_URL @ ''/bytes/1024'')))
       (\<lambda>response.
          let chunks = iter_content ev 256 response;
              total_bytes = sum_list (map (\<lambda>chunk. int (length chunk)) chunks)
          in ret (response, total_bytes))))"

definition file_upload_request_aiohttp :: "env \<Rightarrow> (response \<times> rat) prog" where
  "file_upload_request_aiohttp ev = measure_time_async (with_aiohttp_session (\<lambda>session.
     pbind (NamedTemporaryFile ev) (\<lambda>temp_file_path.
     seq (file_write ev temp_file_path file_text)
        (try_finally
          (pbind (open_rb temp_file_path) (\<lambda>file.
             call ev ((aiohttp_request session ''POST'' (BASE_URL @ ''/post''))
               \<lparr>body := MultipartBody [(''description'', file_description)]
                          [(''file'', ''test.txt'', file, ''text/plain'')]\<rparr>)))
          (os_unlink temp_file_path)))))"

section \<open>httplib2\_lib.py: the timeout group\<close>

text \<open>
  \<^verbatim>\<open>http.request(url, 'GET')\<close> returns the pair of the response and its content. On an
  exception \<^verbatim>\<open>delay_5_timeout_request\<close> returns the pair \<^verbatim>\<open>(None, None)\<close>, so the result
  that \<^verbatim>\<open>test_timeouts\<close> tests with \<^verbatim>\<open>result is None\<close> is a pair in every case: the test is
  never true, the pair is unpacked, and \<^verbatim>\<open>response.status\<close> is read from its first
  component, which raises \<^verbatim>\<open>AttributeError\<close> when that is \<^verbatim>\<open>None\<close>.
\<close>

definition delay_1_request_httplib2 :: "env \<Rightarrow> ((response \<times> string) \<times> rat) prog" where
  "delay_1_request_httplib2 ev = measure_time
     (pbind (call ev (http ''GET'' (BASE_URL @ ''/delay/1'')))
        (\<lambda>response. ret (response, content response)))"

definition delay_5_timeout_request_httplib2 ::
  "env \<Rightarrow> ((response option \<times> string option) \<times> rat) prog" where
  "delay_5_timeout_request_httplib2 ev = measure_time
     (try_except
        (pbind (call ev ((http ''GET'' (BASE_URL @ ''/delay/5''))\<lparr>timeout := Some 3\<rparr>))
           (\<lambda>response. ret (Some response, Some (content response))))
        (\<lambda>e. if is_Exception e then ret (None, None) else raise e))"

definition test_timeouts_httplib2 :: "env \<Rightarrow> results prog" where
  "test_timeouts_httplib2 ev =
     seq (print (Line ''=== 8. Timeouts ==='' []))
     (pbind (delay_1_request_httplib2 ev) (\<lambda>((response, content'), delay1_time).
      seq (report ''Delay 1s'' response delay1_time)
     (pbind (delay_5_timeout_request_httplib2 ev) (\<lambda>(result, timeout_time).
      seq (case result of
             (response, content') \<Rightarrow>
               (case response of
                  None \<Rightarrow> raise AttributeError
                | Some r \<Rightarrow> report ''Delay 5s with timeout 3s'' r timeout_time))
     (ret [(''delay1_time'', delay1_time), (''timeout_time'', timeout_time)])))))"

section \<open>What the scripts expect of the environment\<close>

text \<open>
  The session cookie a call carries: the value of an explicit \<open>Cookie: session=X\<close> header,
  or else the value last set through the call's cookie jar by a call to
  \<open>/cookies/set?session=X\<close> that was answered; a call that raised has put nothing into
  the jar. \<open>cookie_echo\<close> says that \<open>/cookies\<close> echoes the session cookie of the call in
  the \<open>cookies\<close> field of its JSON body; \<open>chunked_read\<close> that the chunks of a streamed
  read are the body, cut in pieces; \<open>timeout_honoured\<close> that the library raises its
  timeout exception for a call no earlier than the call's timeout.
\<close>

definition strip_prefix :: "string \<Rightarrow> string \<Rightarrow> string option" where
  "strip_prefix pre s = (if take (length pre) s = pre then Some (drop (length pre) s) else None)"

fun sets_session :: "event \<Rightarrow> nat \<Rightarrow> string option" where
  "sets_session (Call rq (Inr r)) j =
     (if cookiejar rq = Some j
      then strip_prefix (BASE_URL @ ''/cookies/set?session='') (url rq)
      else None)"
| "sets_session (Call rq (Inl e)) j = None"
| "sets_session (Batch rqs outcome) j = None"

fun jar_session :: "event list \<Rightarrow> nat \<Rightarrow> string option" where
  "jar_session [] j = None"
| "jar_session (event # hist) j =
     (case jar_session hist j of
        Some x \<Rightarrow> Some x
      | None \<Rightarrow> sets_session event j)"

fun header_session :: "(string \<times> string) list \<Rightarrow> string option" where
  "header_session [] = None"
| "header_session ((k, v) # hs) =
     (if k = ''Cookie''
      then (case strip_prefix ''session='' v of
              Some x \<Rightarrow> Some x
            | None \<Rightarrow> header_session hs)
      else header_session hs)"

definition sent_session_cookie :: "request \<Rightarrow> event list \<Rightarrow> string option" where
  "sent_session_cookie rq hist =
     (case header_session (headers rq) of
        Some x \<Rightarrow> Some x
      | None \<Rightarrow> (case cookiejar rq of None \<Rightarrow> None | Some j \<Rightarrow> jar_session hist j))"

definition session_cookie :: "response \<Rightarrow> string option" where
  "session_cookie r =
     (case json_body r of
        Some (JObj kvs) \<Rightarrow>
          (case map_of kvs ''cookies'' of
             Some (JObj cs) \<Rightarrow>
               (case map_of cs ''session'' of Some (JStr x) \<Rightarrow> Some x | _ \<Rightarrow> None)
           | _ \<Rightarrow> None)
      | _ \<Rightarrow> None)"

definition cookie_echo :: "env \<Rightarrow> bool" where
  "cookie_echo ev = (\<forall>rq hist r d x.
     url rq = BASE_URL @ ''/cookies'' \<longrightarrow> send ev rq hist = (Inr r, d) \<longrightarrow>
     sent_session_cookie rq hist = Some x \<longrightarrow> session_cookie r = Some x)"

definition chunked_read :: "env \<Rightarrow> nat \<Rightarrow> response \<Rightarrow> bool" where
  "chunked_read ev n r = (concat (iter_content ev n r) = content r)"

definition timeout_honoured :: "env \<Rightarrow> bool" where
  "timeout_honoured ev = (\<forall>rq hist d t.
     send ev rq hist = (Inl Timeout, d) \<longrightarrow> timeout rq = Some t \<longrightarrow> t \<le> d)"

section \<open>A reference environment\<close>

text \<open>
  A small deterministic stand-in for the echo service and a well-behaved client library,
  used to run the scenarios on concrete inputs. \<open>/delay/n\<close> answers after \<open>n\<close> seconds
  unless the call's timeout is shorter, in which case the library raises its timeout
  exception when the timeout expires; \<open>/status/n\<close> answers with status \<open>n\<close>;
  \<open>/redirect/1\<close> answers 302 with a \<open>Location\<close>, which the library follows when the call
  allows redirects; \<open>/cookies\<close> echoes the cookies of the call: those of its jar (set by
  an earlier \<open>/cookies/set?session=X\<close> through the same jar) and those of its
  \<open>Cookie\<close> header; \<open>/bytes/1024\<close> answers with 1024 bytes. Every other call answers
  200 with an empty JSON object after a fifth of a second. Temporary files can be made,
  and the locale encodes every text as it is.
\<close>

definition ok_response :: "string \<Rightarrow> response" where
  "ok_response u = \<lparr>status_code = 200, resp_url = u, resp_headers = [], content = [],
     json_body = Some (JObj [])\<rparr>"

definition bytes_1024 :: string where
  "bytes_1024 = replicate 1024 (CHR ''x'')"

definition delayed :: "request \<Rightarrow> rat \<Rightarrow> (py_exn + response) \<times> rat" where
  "delayed rq n = (case timeout rq of
      None \<Rightarrow> (Inr (ok_response (url rq)), n)
    | Some t \<Rightarrow> if t < n then (Inl Timeout, t) else (Inr (ok_response (url rq)), n))"

definition httpbin_send :: "request \<Rightarrow> event list \<Rightarrow> (py_exn + response) \<times> rat" where
  "httpbin_send rq hist =
     (let u = url rq in
      if u = BASE_URL @ ''/delay/1'' then delayed rq 1
      else if u = BASE_URL @ ''/delay/2'' then delayed rq 2
      else if u = BASE_URL @ ''/delay/3'' then delayed rq 3
      else if u = BASE_URL @ ''/delay/5'' then delayed rq 5
      else if u = BASE_URL @ ''/status/404'' then (Inr ((ok_response u)\<lparr>status_code := 404\<rparr>), 1/5)
      else if u = BASE_URL @ ''/status/500'' then (Inr ((ok_response u)\<lparr>status_code := 500\<rparr>), 1/5)
      else if u = BASE_URL @ ''/status/429'' then (Inr ((ok_response u)\<lparr>status_code := 429\<rparr>), 1/5)
      else if u = BASE_URL @ ''/redirect/1'' then
        (if allow_redirects rq then (Inr (ok_response (BASE_URL @ ''/get'')), 2/5)
         else (Inr ((ok_response u)\<lparr>status_code := 302, resp_headers := [(''Location'', ''/get'')],
                      json_body := None\<rparr>), 1/5))
      else if u = BASE_URL @ ''/cookies'' then
        (Inr ((ok_response u)\<lparr>json_body := Some (JObj [(''cookies'', JObj (case sent_session_cookie rq hist of
                                None \<Rightarrow> []
                              | Some x \<Rightarrow> [(''session'', JStr x)]))])\<rparr>),
         1/5)
      else if u = BASE_URL @ ''/bytes/1024'' then
        (Inr ((ok_response u)\<lparr>content := bytes_1024, json_body := None\<rparr>), 1/5)
      else (Inr (ok_response u), 1/5))"

fun gather_all :: "request list \<Rightarrow> event list \<Rightarrow> (py_exn + response list) \<times> rat" where
  "gather_all [] hist = (Inr [], 0)"
| "gather_all (rq # rqs) hist =
     (case httpbin_send rq hist of
        (Inl e, d) \<Rightarrow> (Inl e, max d (snd (gather_all rqs hist)))
      | (Inr r, d) \<Rightarrow>
          (case gather_all rqs hist of
             (Inl e, d') \<Rightarrow> (Inl e, max d d')
           | (Inr rs, d') \<Rightarrow> (Inr (r # rs), max d d')))"

function chop :: "nat \<Rightarrow> 'a list \<Rightarrow> 'a list list" where
  "chop n xs = (if n = 0 \<or> xs = [] then [] else take n xs # chop n (drop n xs))"
  by pat_completeness auto
termination
  by (relation "measure (\<lambda>(n, xs). length xs)") auto

declare chop.simps [simp del]

definition tmp_name :: "string list \<Rightarrow> string" where
  "tmp_name existing = ''/tmp/tmp'' @ replicate (length (concat existing)) (CHR ''a'') @ ''.txt''"

definition httpbin :: env where
  "httpbin = \<lparr>send = httpbin_send, gather = gather_all,
     iter_content = (\<lambda>n r. chop n (content r)),
     iter_lines = (\<lambda>r. replicate 10 ''{}''),
     mktemp = (\<lambda>existing. Inr (tmp_name existing)),
     encode = Inr\<rparr>"

text \<open>The same service when the calls to the addresses \<open>bad\<close> fail in the transport.\<close>

definition unreachable :: "string list \<Rightarrow> env" where
  "unreachable bad = httpbin\<lparr>send := (\<lambda>rq hist.
     if url rq \<in> set bad then (Inl TransportError, 1/10) else httpbin_send rq hist)\<rparr>"

text \<open>The same service behind \<^verbatim>\<open>urllib.request\<close>, which raises for a status outside 2xx.\<close>

definition httpbin_urllib :: env where
  "httpbin_urllib = httpbin\<lparr>send := (\<lambda>rq hist.
     case httpbin_send rq hist of
       (Inl e, d) \<Rightarrow> (Inl e, d)
     | (Inr r, d) \<Rightarrow>
         if 200 \<le> status_code r \<and> status_code r < 300 then (Inr r, d)
         else (Inl (HTTPError r), d))\<rparr>"

text \<open>
  The same service through a slow connection: a call to \<open>/delay/5\<close> spends two and a
  half seconds connecting before the service starts its delay and the read timeout of the
  call starts to run, so with the timeout of three seconds the timeout exception is raised
  after five and a half seconds.
\<close>

definition slow_connect :: env where
  "slow_connect = httpbin\<lparr>send := (\<lambda>rq hist.
     if url rq = BASE_URL @ ''/delay/5''
     then (case delayed rq 5 of (outcome, d) \<Rightarrow> (outcome, 5/2 + d))
     else httpbin_send rq hist)\<rparr>"

text \<open>
  The same service for a process whose locale cannot encode the Cyrillic text of the
  upload file (the encoding is ASCII or a Latin code page): the write raises
  \<^verbatim>\<open>UnicodeEncodeError\<close>.
\<close>

definition ascii_locale :: env where
  "ascii_locale = httpbin\<lparr>encode := (\<lambda>text. Inl UnicodeEncodeError)\<rparr>"

definition world0 :: world where
  "world0 = \<lparr>clock = 0, log = [], files = [], out = [], njars = 0\<rparr>"

section \<open>Basic facts about programs\<close>

lemma pbind_ret [simp]: "pbind (ret x) f = f x"
  by (simp add: pbind_def ret_def)

lemma pbind_Inr: "m w = (Inr x, w') \<Longrightarrow> pbind m f w = f x w'"
  by (simp add: pbind_def)

lemma pbind_Inl: "m w = (Inl e, w') \<Longrightarrow> pbind m f w = (Inl e, w')"
  by (simp add: pbind_def)

lemma measure_time_Inr:
  "func w = (Inr x, w') \<Longrightarrow> measure_time func w = (Inr (x, clock w' - clock w), w')"
  by (simp add: measure_time_def pbind_def time_time_def ret_def)

lemma measure_time_Inl:
  "func w = (Inl e, w') \<Longrightarrow> measure_time func w = (Inl e, w')"
  by (simp add: measure_time_def pbind_def time_time_def)

lemma measure_time_async_eq: "measure_time_async func = measure_time func"
  by (simp add: measure_time_async_def measure_time_def)

lemma call_Inr:
  "send ev rq (log w) = (Inr r, d) \<Longrightarrow>
   call ev rq w = (Inr r, w\<lparr>clock := clock w + d, log := log w @ [Call rq (Inr r)]\<rparr>)"
  by (simp add: call_def)

lemma call_Inl:
  "send ev rq (log w) = (Inl e, d) \<Longrightarrow>
   call ev rq w = (Inl e, w\<lparr>clock := clock w + d, log := log w @ [Call rq (Inl e)]\<rparr>)"
  by (simp add: call_def)

lemma get_ok:
  "call httpbin (http ''GET'' (BASE_URL @ ''/get'')) world0 =
     (Inr (ok_response (BASE_URL @ ''/get'')),
      world0\<lparr>clock := 1/5,
        log := [Call (http ''GET'' (BASE_URL @ ''/get'')) (Inr (ok_response (BASE_URL @ ''/get'')))]\<rparr>)"
  by (simp add: call_def httpbin_def httpbin_send_def http_def BASE_URL_def world0_def Let_def)

lemma get_down:
  "call (unreachable [BASE_URL @ ''/get'']) (http ''GET'' (BASE_URL @ ''/get'')) world0 =
     (Inl TransportError,
      world0\<lparr>clock := 1/10,
        log := [Call (http ''GET'' (BASE_URL @ ''/get'')) (Inl TransportError)]\<rparr>)"
  by (simp add: call_def unreachable_def httpbin_def http_def world0_def)

lemma timed_call_Inr:
  "send ev rq (log w) = (Inr r, d) \<Longrightarrow>
   measure_time (call ev rq) w =
     (Inr (r, d), w\<lparr>clock := clock w + d, log := log w @ [Call rq (Inr r)]\<rparr>)"
  by (simp add: measure_time_Inr [OF call_Inr])

lemma timed_call_Inl:
  "send ev rq (log w) = (Inl e, d) \<Longrightarrow>
   measure_time (call ev rq) w =
     (Inl e, w\<lparr>clock := clock w + d, log := log w @ [Call rq (Inl e)]\<rparr>)"
  by (simp add: measure_time_Inl [OF call_Inl])

lemma urlopen_call: "urlopen ev (http m u) = call ev (http m u)"
  by (simp add: urlopen_def opener_open_def build_opener_def default_classes_def http_def)

lemma returning_HTTPError_Inr:
  "m w = (Inr r, w') \<Longrightarrow> returning_HTTPError m w = (Inr r, w')"
  by (simp add: returning_HTTPError_def try_except_def)


lemma timed_urlopen_Inr:
  assumes "send ev (http m u) (log w) = (Inr r, d)"
  shows "measure_time (returning_HTTPError (urlopen ev (http m u))) w =
     (Inr (r, d), w\<lparr>clock := clock w + d, log := log w @ [Call (http m u) (Inr r)]\<rparr>)"
proof -
  have "returning_HTTPError (call ev (http m u)) w =
          (Inr r, w\<lparr>clock := clock w + d, log := log w @ [Call (http m u) (Inr r)]\<rparr>)"
    using assms by (simp add: returning_HTTPError_Inr call_Inr)
  then show ?thesis
    by (simp add: urlopen_call measure_time_Inr)
qed


lemma snd_measure_time: "snd (measure_time func w) = snd (func w)"
  by (cases "func w" rule: prod.exhaust; cases "fst (func w)";
      simp add: measure_time_def pbind_def time_time_def ret_def)

lemma map_of_filter_other: "map_of (filter (\<lambda>(q, c). q \<noteq> p) fs) p = None"
  by (induction fs) auto

lemma filter_other_idem:
  "filter (\<lambda>(q, c). q \<noteq> p) (filter (\<lambda>(q, c). q \<noteq> p) fs) = filter (\<lambda>(q, c). q \<noteq> p) fs"
  by (induction fs) auto

text \<open>
  The upload scenarios share their shape: create the file, write it, and run the upload
  in a \<^verbatim>\<open>try\<close> whose \<^verbatim>\<open>finally\<close> removes the file. \<open>upload\<close> stands for the part that
  differs, the call a script issues for a path and the content read from it.
\<close>

lemma upload_not_created:
  assumes "mktemp ev (map fst (files w)) = Inl e"
  shows "pbind (NamedTemporaryFile ev) (\<lambda>p.
           seq (file_write ev p text)
             (try_finally (pbind (open_rb p) (\<lambda>file. call ev (upload p file))) (os_unlink p))) w =
         (Inl e, w)"
  using assms by (simp add: pbind_def NamedTemporaryFile_def)

lemma upload_not_written:
  assumes "mktemp ev (map fst (files w)) = Inr p" and "encode ev text = Inl e"
  shows "pbind (NamedTemporaryFile ev) (\<lambda>p.
           seq (file_write ev p text)
             (try_finally (pbind (open_rb p) (\<lambda>file. call ev (upload p file))) (os_unlink p))) w =
         (Inl e, w\<lparr>files := (p, []) # filter (\<lambda>(q, c). q \<noteq> p) (files w)\<rparr>)"
  using assms by (simp add: pbind_def seq_def NamedTemporaryFile_def file_write_def)

lemma upload_written:
  assumes "mktemp ev (map fst (files w)) = Inr p" and "encode ev text = Inr bytes"
    and "send ev (upload p bytes) (log w) = (outcome, d)"
  shows "pbind (NamedTemporaryFile ev) (\<lambda>p.
           seq (file_write ev p text)
             (try_finally (pbind (open_rb p) (\<lambda>file. call ev (upload p file))) (os_unlink p))) w =
         (outcome, w\<lparr>clock := clock w + d, log := log w @ [Call (upload p bytes) outcome],
                     files := filter (\<lambda>(q, c). q \<noteq> p) (files w)\<rparr>)"
  using assms
  by (cases outcome)
     (simp_all add: pbind_def seq_def NamedTemporaryFile_def file_write_def try_finally_def
        open_rb_def os_unlink_def call_def filter_other_idem)



text \<open>One attempt that is answered is the whole call of the urllib3 pool.\<close>

lemma urlopen_urllib3_Inr:
  "send ev rq (log w) = (Inr r, d) \<Longrightarrow>
   urlopen_urllib3 ev rq retries w =
     (Inr r, w\<lparr>clock := clock w + d, log := log w @ [Call rq (Inr r)]\<rparr>)"
  by (cases retries) (simp_all add: try_except_def call_def)

lemma request_urllib3_Inr:
  "send ev rq (log w) = (Inr r, d) \<Longrightarrow>
   request_urllib3 ev rq w =
     (Inr r, w\<lparr>clock := clock w + d, log := log w @ [Call rq (Inr r)]\<rparr>)"
  by (simp add: request_urllib3_def urlopen_urllib3_Inr)

lemma timed_request_urllib3_Inr:
  "send ev rq (log w) = (Inr r, d) \<Longrightarrow>
   measure_time (request_urllib3 ev rq) w =
     (Inr (r, d), w\<lparr>clock := clock w + d, log := log w @ [Call rq (Inr r)]\<rparr>)"
  by (simp add: measure_time_Inr [OF request_urllib3_Inr])

lemma sum_chunk_lengths:
  "sum_list (map (\<lambda>chunk. int (length chunk)) chunks) = int (length (concat chunks))"
  by (induction chunks) auto

lemma concat_chop: "0 < n \<Longrightarrow> concat (chop n xs) = xs"
proof (induction n xs rule: chop.induct)
  case (1 n xs)
  show ?case
  proof (cases "xs = []")
    case True
    then show ?thesis by (simp add: chop.simps)
  next
    case False
    with 1 have "concat (chop n (drop n xs)) = drop n xs" by simp
    with False 1(2) show ?thesis
      by (subst chop.simps) simp
  qed
qed

lemma chunked_total:
  "chunked_read ev n r \<Longrightarrow>
   sum_list (map (\<lambda>chunk. int (length chunk)) (iter_content ev n r)) = int (length (content r))"
  by (simp add: sum_chunk_lengths chunked_read_def)

lemma send_bytes_httpbin:
  "send httpbin ((http ''GET'' (BASE_URL @ ''/bytes/1024''))\<lparr>stream := True\<rparr>) (log world0) =
     (Inr ((ok_response (BASE_URL @ ''/bytes/1024''))
             \<lparr>content := bytes_1024, json_body := None\<rparr>), 1/5)"
  by (simp add: httpbin_def httpbin_send_def http_def BASE_URL_def Let_def)

lemma send_bytes_httpbin_aiohttp:
  "send httpbin (aiohttp_request \<lparr>jar = njars world0, session_headers = []\<rparr> ''GET''
       (BASE_URL @ ''/bytes/1024'')) (log world0) =
     (Inr ((ok_response (BASE_URL @ ''/bytes/1024''))
             \<lparr>content := bytes_1024, json_body := None\<rparr>), 1/5)"
  by (simp add: httpbin_def httpbin_send_def aiohttp_request_def http_def BASE_URL_def Let_def)

lemma chunked_read_httpbin: "0 < n \<Longrightarrow> chunked_read httpbin n r"
  by (simp add: chunked_read_def httpbin_def concat_chop)

lemma length_bytes_1024: "length bytes_1024 = 1024"
  by (simp add: bytes_1024_def)

lemma timeout_None:
  assumes "send ev rq (log w) = (Inl Timeout, d)"
  shows "measure_time (try_except (pbind (call ev rq) (\<lambda>response. ret (Some response)))
            (\<lambda>e. if e = Timeout then ret None else raise e)) w =
         (Inr (None, d), w\<lparr>clock := clock w + d, log := log w @ [Call rq (Inl Timeout)]\<rparr>)"
proof -
  have "try_except (pbind (call ev rq) (\<lambda>response. ret (Some response)))
            (\<lambda>e. if e = Timeout then ret None else raise e) w =
        (Inr None, w\<lparr>clock := clock w + d, log := log w @ [Call rq (Inl Timeout)]\<rparr>)"
    using assms by (simp add: try_except_def pbind_def call_def ret_def)
  then show ?thesis
    by (simp add: measure_time_Inr)
qed

lemma send_delay5_httpbin:
  "send httpbin ((http ''GET'' (BASE_URL @ ''/delay/5''))\<lparr>timeout := Some 3\<rparr>) hist =
     (Inl Timeout, 3)"
  by (simp add: httpbin_def httpbin_send_def delayed_def http_def BASE_URL_def Let_def)

lemma send_delay5_slow:
  "send slow_connect ((http ''GET'' (BASE_URL @ ''/delay/5''))\<lparr>timeout := Some 3\<rparr>) (log world0) =
     (Inl Timeout, 11/2)"
  by (simp add: slow_connect_def httpbin_def delayed_def http_def)

lemma delayed_honours_timeout:
  "delayed rq n = (Inl Timeout, d) \<Longrightarrow> timeout rq = Some t \<Longrightarrow> t \<le> d"
  by (auto simp: delayed_def split: if_splits)

lemma timeout_honoured_httpbin: "timeout_honoured httpbin"
  unfolding timeout_honoured_def httpbin_def httpbin_send_def Let_def
  by (auto split: if_splits dest: delayed_honours_timeout)

lemma timeout_honoured_slow_connect: "timeout_honoured slow_connect"
proof -
  have "t \<le> d" if "send slow_connect rq hist = (Inl Timeout, d)" "timeout rq = Some t"
    for rq hist d t
  proof (cases "url rq = BASE_URL @ ''/delay/5''")
    case True
    with that(1) obtain d' where "delayed rq 5 = (Inl Timeout, d')" "d = 5/2 + d'"
      by (auto simp: slow_connect_def httpbin_def split: prod.splits)
    with that(2) show ?thesis
      using delayed_honours_timeout [of rq 5 d' t] by simp
  next
    case False
    with that(1) have "send httpbin rq hist = (Inl Timeout, d)"
      by (simp add: slow_connect_def httpbin_def)
    with that(2) show ?thesis
      using timeout_honoured_httpbin unfolding timeout_honoured_def by blast
  qed
  then show ?thesis
    unfolding timeout_honoured_def by blast
qed

lemma no_redirect_opener_follows: "HTTPRedirectHandler \<in> set (handlers no_redirect_opener)"
  by (simp add: no_redirect_opener_def build_opener_def default_classes_def Let_def)

lemma no_redirect_opener_open:
  "opener_open ev no_redirect_opener rq = opener_open ev (build_opener []) rq"
  by (simp add: opener_open_def no_redirect_opener_def build_opener_def default_classes_def Let_def)

lemma no_redirect_request_urllib_is_urlopen:
  "no_redirect_request_urllib ev =
     measure_time (returning_HTTPError (urlopen ev (http ''GET'' (BASE_URL @ ''/redirect/1''))))"
  by (simp add: no_redirect_request_urllib_def urlopen_def no_redirect_opener_open)

lemma send_redirect_httpbin_urllib:
  "send httpbin_urllib (http ''GET'' (BASE_URL @ ''/redirect/1'')) (log world0) =
     (Inr (ok_response (BASE_URL @ ''/get'')), 2/5)"
  by (simp add: httpbin_urllib_def httpbin_def httpbin_send_def http_def BASE_URL_def Let_def
        ok_response_def)

lemma seq_print:
  "seq (print l) k w = k (w\<lparr>out := out w @ [l]\<rparr>)"
  by (simp add: seq_def pbind_def print_def)

lemma digest_is_get:
  "digest_auth_request_urllib ev = get_request_urllib ev \<and>
   digest_auth_request_urllib3 ev = get_request_urllib3 ev"
  by (simp add: digest_auth_request_urllib_def get_request_urllib_def
        digest_auth_request_urllib3_def get_request_urllib3_def)

lemma measure_time_cases:
  "measure_time func w = (Inr (x, t), w') \<Longrightarrow> func w = (Inr x, w') \<and> t = clock w' - clock w"
  by (cases "func w" rule: prod.exhaust; cases "fst (func w)")
     (auto simp: measure_time_def pbind_def time_time_def ret_def)

lemma out_call [simp]: "out (snd (call ev rq w)) = out w"
  by (simp add: call_def split: prod.splits)

lemma out_timed_call: "measure_time (call ev rq) w = (r, w') \<Longrightarrow> out w' = out w"
  by (metis out_call snd_conv snd_measure_time)

lemma out_urlopen_urllib3 [simp]: "out (snd (urlopen_urllib3 ev rq retries w)) = out w"
proof (induction retries arbitrary: w)
  case 0
  show ?case
    by (cases "call ev rq w" rule: prod.exhaust; cases "fst (call ev rq w)")
       (use out_call [of ev rq w] in \<open>auto simp: try_except_def raise_def\<close>)
next
  case (Suc retries)
  show ?case
    by (cases "call ev rq w" rule: prod.exhaust; cases "fst (call ev rq w)")
       (use out_call [of ev rq w] Suc in \<open>auto simp: try_except_def raise_def\<close>)
qed

lemma out_timed_request_urllib3:
  "measure_time (request_urllib3 ev rq) w = (r, w') \<Longrightarrow> out w' = out w"
  by (metis out_urlopen_urllib3 request_urllib3_def snd_conv snd_measure_time)

lemma auth_group_result:
  assumes run: "seq (print banner)
       (pbind b (\<lambda>(response, basic_time).
        seq (report l1 response basic_time)
       (pbind d (\<lambda>(response, digest_time).
        seq (report l2 response digest_time)
       (ret [(k1, basic_time), (k2, digest_time)]))))) w = (Inr res, w')"
    and keep_b: "\<And>w r w'. b w = (r, w') \<Longrightarrow> out w' = out w"
    and keep_d: "\<And>w r w'. d w = (r, w') \<Longrightarrow> out w' = out w"
  shows "\<exists>(r1::response) t1 (r2::response) t2.
      res = [(k1, t1), (k2, t2)] \<and>
      out w' = out w @ [banner, Line l1 [AInt (status_code r1), ATime t1],
                        Line l2 [AInt (status_code r2), ATime t2]]"
proof -
  let ?w1 = "w\<lparr>out := out w @ [banner]\<rparr>"
  obtain a w2 where b: "b ?w1 = (a, w2)"
    by (cases "b ?w1") auto
  from run b obtain r1 t1 where a: "a = Inr (r1, t1)"
    by (cases a) (auto simp: seq_print pbind_def)
  have o2: "out w2 = out ?w1"
    using b by (rule keep_b)
  let ?w3 = "w2\<lparr>out := out w2 @ [Line l1 [AInt (status_code r1), ATime t1]]\<rparr>"
  obtain c w4 where d: "d ?w3 = (c, w4)"
    by (cases "d ?w3") auto
  from run b a d obtain r2 t2 where c: "c = Inr (r2, t2)"
    by (cases c) (auto simp: seq_print pbind_def report_def)
  have o4: "out w4 = out ?w3"
    using d by (rule keep_d)
  from run b a d c o2 o4
  have "res = [(k1, t1), (k2, t2)] \<and>
      out w' = out w @ [banner, Line l1 [AInt (status_code r1), ATime t1],
                        Line l2 [AInt (status_code r2), ATime t2]]"
    by (auto simp: seq_print pbind_def report_def ret_def)
  then show ?thesis by blast
qed

lemma test_authentication_urllib_httpbin:
  "test_authentication_urllib httpbin_urllib world0 =
     (Inr [(''basic_time'', 1/5), (''digest_time'', 1/5)],
      world0\<lparr>clock := 2/5,
        log := [Call ((http ''GET'' (BASE_URL @ ''/basic-auth/user/pass''))
                        \<lparr>headers := [(''Authorization'', ''Basic dXNlcjpwYXNz'')]\<rparr>)
                  (Inr (ok_response (BASE_URL @ ''/basic-auth/user/pass''))),
                Call (http ''GET'' (BASE_URL @ ''/get'')) (Inr (ok_response (BASE_URL @ ''/get'')))],
        out := [Line ''=== 4. Authentication ==='' [],
                Line ''Basic Auth'' [AInt 200, ATime (1/5)],
                Line ''Digest Auth (fallback)'' [AInt 200, ATime (1/5)]]\<rparr>)"
  by code_simp

lemma strip_prefix_append [simp]: "strip_prefix pre (pre @ x) = Some x"
  by (simp add: strip_prefix_def)

lemma jar_session_snoc:
  "cookiejar rq = Some j \<Longrightarrow>
   strip_prefix (BASE_URL @ ''/cookies/set?session='') (url rq) = Some x \<Longrightarrow>
   jar_session (hist @ [Call rq (Inr r)]) j = Some x"
  by (induction hist) simp_all

lemma strip_set_url:
  "strip_prefix (BASE_URL @ ''/cookies/set?session='') (BASE_URL @ ''/cookies/set?session=abc123'') =
     Some ''abc123''"
  by (simp add: strip_prefix_def BASE_URL_def)

lemma session_cookie_fields:
  assumes "session_cookie r = Some x"
  shows "\<exists>kvs cs. json_body r = Some (JObj kvs) \<and> map_of kvs ''cookies'' = Some (JObj cs) \<and>
                  map_of cs ''session'' = Some (JStr x)"
  using assms
  by (auto simp: session_cookie_def split: option.splits json.splits)

lemma cookie_echo_httpbin: "cookie_echo httpbin"
  by (auto simp: cookie_echo_def httpbin_def httpbin_send_def BASE_URL_def Let_def
        session_cookie_def ok_response_def split: option.splits)

lemma cookie_echo_httpbin_urllib: "cookie_echo httpbin_urllib"
  by (auto simp: cookie_echo_def httpbin_urllib_def httpbin_def httpbin_send_def BASE_URL_def Let_def
        session_cookie_def ok_response_def split: option.splits if_splits)

text \<open>
  A cookie set through a jar by a call that was answered is the cookie a later call
  through the same jar carries, so an echoing service returns it; and a cookie in the
  \<open>Cookie\<close> header of the call is echoed as well.
\<close>

lemma jar_round_trip:
  assumes echo: "cookie_echo ev"
    and set_rq: "cookiejar rq1 = Some j"
      "strip_prefix (BASE_URL @ ''/cookies/set?session='') (url rq1) = Some x"
    and get_rq: "cookiejar rq2 = Some j" "url rq2 = BASE_URL @ ''/cookies''" "headers rq2 = []"
    and answered: "send ev rq2 (hist @ [Call rq1 (Inr r1)]) = (Inr r2, d2)"
  shows "session_cookie r2 = Some x"
proof -
  have "sent_session_cookie rq2 (hist @ [Call rq1 (Inr r1)]) = Some x"
    using set_rq get_rq by (simp add: sent_session_cookie_def jar_session_snoc)
  with answered get_rq(2) echo show ?thesis
    unfolding cookie_echo_def by blast
qed

lemma header_round_trip:
  assumes echo: "cookie_echo ev"
    and answered: "send ev ((http ''GET'' (BASE_URL @ ''/cookies''))
                     \<lparr>headers := [(''Cookie'', ''session=abc123'')]\<rparr>) hist = (Inr r, d)"
  shows "session_cookie r = Some ''abc123''"
proof -
  let ?rq = "(http ''GET'' (BASE_URL @ ''/cookies''))\<lparr>headers := [(''Cookie'', ''session=abc123'')]\<rparr>"
  have "sent_session_cookie ?rq hist = Some ''abc123''"
    by (simp add: sent_session_cookie_def strip_prefix_def)
  moreover have "url ?rq = BASE_URL @ ''/cookies''"
    by (simp add: http_def)
  ultimately show ?thesis
    using answered echo unfolding cookie_echo_def by blast
qed

lemma pbind_assoc: "pbind (pbind m f) k = pbind m (\<lambda>x. pbind (f x) k)"
  by (auto simp: pbind_def fun_eq_iff split: prod.splits sum.splits)

lemma pbind_Session:
  "pbind Session f w = f \<lparr>jar = njars w, session_headers = []\<rparr> (w\<lparr>njars := njars w + 1\<rparr>)"
  by (simp add: pbind_def Session_def)

lemma pbind_apply:
  "pbind m f w = (case m w of (Inl e, w') \<Rightarrow> (Inl e, w') | (Inr x, w') \<Rightarrow> f x w')"
  by (simp add: pbind_def)

lemma seq_apply:
  "seq m k w = (case m w of (Inl e, w') \<Rightarrow> (Inl e, w') | (Inr x, w') \<Rightarrow> k w')"
  by (simp add: seq_def pbind_def)

lemma measure_time_apply:
  "measure_time func w = (case func w of
      (Inl e, w') \<Rightarrow> (Inl e, w')
    | (Inr x, w') \<Rightarrow> (Inr (x, clock w' - clock w), w'))"
  by (simp add: measure_time_def pbind_def time_time_def ret_def split: prod.splits sum.splits)

lemma ret_apply: "ret x w = (Inr x, w)"
  by (simp add: ret_def)

lemma raise_apply: "raise e w = (Inl e, w)"
  by (simp add: raise_def)

lemma print_apply: "print l w = (Inr (), w\<lparr>out := out w @ [l]\<rparr>)"
  by (simp add: print_def)

lemma call_apply:
  "call ev rq w = (case send ev rq (log w) of
      (r, d) \<Rightarrow> (r, w\<lparr>clock := clock w + d, log := log w @ [Call rq r]\<rparr>))"
  by (simp add: call_def)

lemma try_except_apply:
  "try_except m handler w =
     (case m w of (Inl e, w') \<Rightarrow> handler e w' | (Inr x, w') \<Rightarrow> (Inr x, w'))"
  by (simp add: try_except_def)

lemma print_summary_lines:
  "print_summary all_results w = (Inr (), w\<lparr>out := out w @ summary_lines all_results\<rparr>)"
proof (induction all_results arbitrary: w)
  case Nil
  then show ?case by (simp add: summary_lines_def ret_def)
next
  case (Cons g gs)
  obtain test_name results where g: "g = (test_name, results)"
    by (cases g)
  show ?case
  proof (cases "times_of results = []")
    case True
    then show ?thesis
      using Cons [of w] by (simp add: g seq_def pbind_def ret_def summary_lines_def Let_def)
  next
    case False
    then show ?thesis
      using Cons [of "w\<lparr>out := out w @ summary_lines [g]\<rparr>"]
      by (simp add: g seq_def pbind_def print_def summary_lines_def Let_def)
  qed
qed

lemma Session_apply:
  "Session w = (Inr \<lparr>jar = njars w, session_headers = []\<rparr>, w\<lparr>njars := njars w + 1\<rparr>)"
  by (simp add: Session_def)

lemma ClientSession_apply:
  "ClientSession w = (Inr \<lparr>jar = njars w, session_headers = []\<rparr>, w\<lparr>njars := njars w + 1\<rparr>)"
  by (simp add: ClientSession_def)

lemma CookieJar_apply: "CookieJar w = (Inr (njars w), w\<lparr>njars := njars w + 1\<rparr>)"
  by (simp add: CookieJar_def)

lemma call_gather_apply:
  "call_gather ev rqs w = (case gather ev rqs (log w) of
      (r, d) \<Rightarrow> (r, w\<lparr>clock := clock w + d, log := log w @ [Batch rqs r]\<rparr>))"
  by (simp add: call_gather_def)

lemma try_finally_apply:
  "try_finally m cleanup w =
     (case m w of (r, w') \<Rightarrow>
        (case cleanup w' of (Inl e, w'') \<Rightarrow> (Inl e, w'') | (Inr u, w'') \<Rightarrow> (r, w'')))"
  by (simp add: try_finally_def)

lemma NamedTemporaryFile_apply:
  "NamedTemporaryFile ev w =
     (case mktemp ev (map fst (files w)) of
        Inl e \<Rightarrow> (Inl e, w)
      | Inr p \<Rightarrow> (Inr p, w\<lparr>files := (p, []) # filter (\<lambda>(q, c). q \<noteq> p) (files w)\<rparr>))"
  by (simp add: NamedTemporaryFile_def)

lemma file_write_apply:
  "file_write ev p text w =
     (case encode ev text of
        Inl e \<Rightarrow> (Inl e, w)
      | Inr bytes \<Rightarrow> (Inr (), w\<lparr>files := (p, bytes) # filter (\<lambda>(q, c). q \<noteq> p) (files w)\<rparr>))"
  by (simp add: file_write_def)

lemma open_rb_apply:
  "open_rb p w = (case map_of (files w) p of
      None \<Rightarrow> (Inl FileNotFoundError, w)
    | Some c \<Rightarrow> (Inr c, w))"
  by (simp add: open_rb_def)

lemma os_unlink_apply:
  "os_unlink p w = (case map_of (files w) p of
      None \<Rightarrow> (Inl FileNotFoundError, w)
    | Some c \<Rightarrow> (Inr (), w\<lparr>files := filter (\<lambda>(q, c). q \<noteq> p) (files w)\<rparr>))"
  by (simp add: os_unlink_def)

lemma urlopen_urllib3_apply:
  "urlopen_urllib3 ev rq 0 w =
     (case call ev rq w of
        (Inl e, w') \<Rightarrow> if retried e then (Inl MaxRetryError, w') else (Inl e, w')
      | (Inr r, w') \<Rightarrow> (Inr r, w'))"
  "urlopen_urllib3 ev rq (Suc retries) w =
     (case call ev rq w of
        (Inl e, w') \<Rightarrow> if retried e then urlopen_urllib3 ev rq retries w' else (Inl e, w')
      | (Inr r, w') \<Rightarrow> (Inr r, w'))"
  by (simp_all add: try_except_def raise_def split: prod.splits sum.splits)

lemma request_urllib3_apply:
  "request_urllib3 ev rq w = urlopen_urllib3 ev rq (Suc (Suc (Suc 0))) w"
  by (simp add: request_urllib3_def numeral_3_eq_3)

lemma run_all_tests_apply:
  "run_all_tests banner groups w =
     (case run_groups groups [] (w\<lparr>out := out w @ [Line banner []]\<rparr>) of
        ((None, all_results), w') \<Rightarrow>
          (Inr all_results,
           w'\<lparr>out := out w' @ [Line ''=== RESULTS SUMMARY ==='' []] @ summary_lines all_results\<rparr>)
      | ((Some e, all_results), w') \<Rightarrow>
          if is_Exception e
          then (Inr all_results,
                w'\<lparr>out := out w' @ [Line ''Error while running tests'' [AExn e],
                                      Line ''=== RESULTS SUMMARY ==='' []] @ summary_lines all_results\<rparr>)
          else (Inl e, w'))"
  by (simp add: run_all_tests_def seq_def pbind_def print_def print_summary_lines ret_def
        split: prod.splits option.splits)

lemmas eval_simps = pbind_apply seq_apply measure_time_apply ret_apply raise_apply print_apply
  call_apply try_except_apply report_def Session_apply call_gather_apply try_finally_apply
  NamedTemporaryFile_apply file_write_apply open_rb_apply os_unlink_apply

lemmas scenario_defs = get_request_def post_json_request_def put_request_def delete_request_def
  get_with_params_def get_with_headers_def get_user_agent_def post_json_def post_form_data_def
  post_raw_text_def basic_auth_request_def digest_auth_request_def set_cookies_request_def
  session_get_def get_cookies_request_def error_404_request_def error_500_request_def
  error_429_request_def redirect_3_request_def redirect_to_request_def no_redirect_request_def
  delay_1_request_def delay_5_timeout_request_def stream_lines_request_def
  stream_bytes_request_def gzip_request_def brotli_request_def delay_urls_def
  sequential_delays_def parallel_delays_def file_upload_request_def json_response_request_def
  xml_response_request_def html_response_request_def image_response_request_def
  session_set_cookie_def session_get_cookie_def session_headers_request_def
  response_json_def json_get_def json_keys_def error_step_def

lemmas group_defs = test_basic_requests_def test_params_and_headers_def
  test_request_body_formats_def test_authentication_def test_cookies_def
  test_error_handling_def test_redirects_def test_timeouts_def test_streaming_def
  test_compression_def test_async_parallel_def test_file_upload_def test_response_formats_def
  test_sessions_def

lemmas httpbin_defs = httpbin_def httpbin_send_def delayed_def ok_response_def http_def
  BASE_URL_def Let_def sent_session_cookie_def strip_prefix_def unreachable_def issued_def

lemma run_groups_append:
  "run_groups pre acc w = ((None, acc'), w1) \<Longrightarrow>
   run_groups (pre @ rest) acc w = run_groups rest acc' w1"
proof (induction pre arbitrary: acc w)
  case Nil
  then show ?case by simp
next
  case (Cons g pre)
  obtain name test where g: "g = (name, test)"
    by (cases g)
  from Cons.prems show ?case
    by (auto simp: g split: prod.splits sum.splits intro: Cons.IH)
qed

lemma basic_then_headers_down:
  "fst (run_groups [(''basic'', test_basic_requests (unreachable [BASE_URL @ ''/headers'']))] []
          (world0\<lparr>out := out world0 @ [Line ''=== TESTING THE REQUESTS LIBRARY ==='' []]\<rparr>)) =
     (None, [(''basic'', [(''get_time'', 1/5), (''post_time'', 1/5),
                          (''put_time'', 1/5), (''delete_time'', 1/5)])]) \<and>
   fst (test_params_and_headers (unreachable [BASE_URL @ ''/headers''])
          (snd (run_groups [(''basic'', test_basic_requests (unreachable [BASE_URL @ ''/headers'']))] []
             (world0\<lparr>out := out world0 @ [Line ''=== TESTING THE REQUESTS LIBRARY ==='' []]\<rparr>)))) =
     Inl TransportError"
  by (simp add: eval_simps scenario_defs group_defs httpbin_defs world0_def)

lemma send_delays_httpbin:
  "send httpbin (http ''GET'' (BASE_URL @ ''/delay/1'')) hist =
     (Inr (ok_response (BASE_URL @ ''/delay/1'')), 1) \<and>
   send httpbin ((http ''GET'' (BASE_URL @ ''/delay/5''))\<lparr>timeout := Some 3\<rparr>) hist' =
     (Inl Timeout, 3)"
  by (simp add: httpbin_defs)

lemma send_no_follow_httpbin:
  "send httpbin ((http ''GET'' (BASE_URL @ ''/redirect/1''))\<lparr>allow_redirects := False\<rparr>) (log world0) =
     (Inr ((ok_response (BASE_URL @ ''/redirect/1''))
        \<lparr>status_code := 302, resp_headers := [(''Location'', ''/get'')], json_body := None\<rparr>), 1/5)"
  by (simp add: httpbin_defs)

lemma send_delay5_unreachable:
  "send (unreachable [BASE_URL @ ''/delay/5''])
     (http ''GET'' (BASE_URL @ ''/delay/5'')\<lparr>timeout := Some 3\<rparr>) (log world0) =
     (Inl TransportError, 1/10)"
  by (simp add: unreachable_def httpbin_def http_def)

lemma basic_group_httpbin:
  "fst (run_groups [(''basic'', test_basic_requests httpbin)] []
          (world0\<lparr>out := out world0 @ [Line ''banner'' []]\<rparr>)) =
     (None, [(''basic'', [(''get_time'', 1/5), (''post_time'', 1/5),
                          (''put_time'', 1/5), (''delete_time'', 1/5)])])"
  by (simp add: eval_simps scenario_defs group_defs httpbin_defs world0_def)

lemma opener_open_jar:
  "opener_open ev (build_opener [HTTPCookieProcessor j]) (http m u) =
     call ev ((http m u)\<lparr>cookiejar := Some j\<rparr>)"
  by (simp add: opener_open_def build_opener_def default_classes_def http_def)

lemma pbind_CookieJar: "pbind CookieJar f w = f (njars w) (w\<lparr>njars := njars w + 1\<rparr>)"
  by (simp add: pbind_def CookieJar_def)

lemma urlopen_plain:
  assumes "allow_redirects rq" and "cookiejar rq = None"
  shows "urlopen ev rq = call ev rq"
proof -
  have "rq\<lparr>allow_redirects := True, cookiejar := None\<rparr> = rq"
    using assms by (cases rq) simp
  then show ?thesis
    by (simp add: urlopen_def opener_open_def build_opener_def default_classes_def)
qed

lemma auth_urllib_exact:
  assumes "send ev ((http ''GET'' (BASE_URL @ ''/basic-auth/user/pass''))
                 \<lparr>headers := [(''Authorization'', ''Basic dXNlcjpwYXNz'')]\<rparr>) (log w) = (Inr r1, d1)"
    and "send ev (http ''GET'' (BASE_URL @ ''/get''))
           (log w @ [Call ((http ''GET'' (BASE_URL @ ''/basic-auth/user/pass''))
                 \<lparr>headers := [(''Authorization'', ''Basic dXNlcjpwYXNz'')]\<rparr>) (Inr r1)]) = (Inr r2, d2)"
  shows "test_authentication_urllib ev w =
     (Inr [(''basic_time'', d1), (''digest_time'', d2)],
      w\<lparr>clock := clock w + d1 + d2,
        log := log w @ [Call ((http ''GET'' (BASE_URL @ ''/basic-auth/user/pass''))
                 \<lparr>headers := [(''Authorization'', ''Basic dXNlcjpwYXNz'')]\<rparr>) (Inr r1),
                        Call (http ''GET'' (BASE_URL @ ''/get'')) (Inr r2)],
        out := out w @ [Line ''=== 4. Authentication ==='' [],
                        Line ''Basic Auth'' [AInt (status_code r1), ATime d1],
                        Line ''Digest Auth (fallback)'' [AInt (status_code r2), ATime d2]]\<rparr>)"
proof -
  have plain: "urlopen ev ((http ''GET'' (BASE_URL @ ''/basic-auth/user/pass''))
                 \<lparr>headers := [(''Authorization'', ''Basic dXNlcjpwYXNz'')]\<rparr>) =
      call ev ((http ''GET'' (BASE_URL @ ''/basic-auth/user/pass''))
                 \<lparr>headers := [(''Authorization'', ''Basic dXNlcjpwYXNz'')]\<rparr>)"
    by (rule urlopen_plain) (simp_all add: http_def)
  show ?thesis
    using assms
    by (simp add: test_authentication_urllib_def basic_auth_request_urllib_def
          digest_auth_request_urllib_def plain urlopen_call eval_simps)
qed

lemma auth_urllib3_exact:
  assumes "send ev ((http ''GET'' (BASE_URL @ ''/basic-auth/user/pass''))
                 \<lparr>headers := [(''Authorization'', ''Basic dXNlcjpwYXNz'')]\<rparr>) (log w) = (Inr r1, d1)"
    and "send ev (http ''GET'' (BASE_URL @ ''/get''))
           (log w @ [Call ((http ''GET'' (BASE_URL @ ''/basic-auth/user/pass''))
                 \<lparr>headers := [(''Authorization'', ''Basic dXNlcjpwYXNz'')]\<rparr>) (Inr r1)]) = (Inr r2, d2)"
  shows "test_authentication_urllib3 ev w =
     (Inr [(''basic_time'', d1), (''digest_time'', d2)],
      w\<lparr>clock := clock w + d1 + d2,
        log := log w @ [Call ((http ''GET'' (BASE_URL @ ''/basic-auth/user/pass''))
                 \<lparr>headers := [(''Authorization'', ''Basic dXNlcjpwYXNz'')]\<rparr>) (Inr r1),
                        Call (http ''GET'' (BASE_URL @ ''/get'')) (Inr r2)],
        out := out w @ [Line ''=== 4. Authentication ==='' [],
                        Line ''Basic Auth'' [AInt (status_code r1), ATime d1],
                        Line ''Digest Auth (fallback)'' [AInt (status_code r2), ATime d2]]\<rparr>)"
  using assms
  by (simp add: test_authentication_urllib3_def basic_auth_request_urllib3_def
        digest_auth_request_urllib3_def request_urllib3_apply urlopen_urllib3_apply eval_simps)

text \<open>The cookie scenarios when the service answers their calls.\<close>

lemma test_cookies_answered:
  assumes "send ev (http ''GET'' (BASE_URL @ ''/cookies/set?session=abc123'')) (log w) = (Inr r0, d0)"
    and "send ev ((http ''GET'' (BASE_URL @ ''/cookies/set?session=abc123''))
                    \<lparr>headers := [], cookiejar := Some (njars w)\<rparr>)
           (log w @ [Call (http ''GET'' (BASE_URL @ ''/cookies/set?session=abc123'')) (Inr r0)]) =
         (Inr r1, d1)"
    and "send ev ((http ''GET'' (BASE_URL @ ''/cookies''))
                    \<lparr>headers := [], cookiejar := Some (njars w)\<rparr>)
           (log w @ [Call (http ''GET'' (BASE_URL @ ''/cookies/set?session=abc123'')) (Inr r0),
                     Call ((http ''GET'' (BASE_URL @ ''/cookies/set?session=abc123''))
                             \<lparr>headers := [], cookiejar := Some (njars w)\<rparr>) (Inr r1)]) =
         (Inr r2, d2)"
    and "json_body r2 = Some (JObj kvs)" and "map_of kvs ''cookies'' = Some (JObj cs)"
  shows "test_cookies ev w =
     (Inr [(''set_cookie_time'', d0), (''get_cookie_time'', d2)],
      w\<lparr>clock := clock w + d0 + d1 + d2,
        log := log w @
          [Call (http ''GET'' (BASE_URL @ ''/cookies/set?session=abc123'')) (Inr r0),
           Call ((http ''GET'' (BASE_URL @ ''/cookies/set?session=abc123''))
                   \<lparr>headers := [], cookiejar := Some (njars w)\<rparr>) (Inr r1),
           Call ((http ''GET'' (BASE_URL @ ''/cookies''))
                   \<lparr>headers := [], cookiejar := Some (njars w)\<rparr>) (Inr r2)],
        out := out w @
          [Line ''=== 5. Cookies ==='' [],
           Line ''Set cookie'' [AInt (status_code r0), ATime d0],
           Line ''Get cookies'' [AInt (status_code r2), ATime d2],
           Line ''Cookies in response'' [AJson (JObj cs)]],
        njars := njars w + 1\<rparr>)"
  using assms
  by (simp add: test_cookies_def set_cookies_request_def session_get_def get_cookies_request_def
        response_json_def json_get_def eval_simps)

lemma get_cookies_request_aiohttp_answered:
  assumes "send ev (aiohttp_request \<lparr>jar = njars w, session_headers = []\<rparr> ''GET''
                      (BASE_URL @ ''/cookies/set?session=abc123'')) (log w) = (Inr r1, d1)"
    and "send ev (aiohttp_request \<lparr>jar = njars w, session_headers = []\<rparr> ''GET''
                      (BASE_URL @ ''/cookies''))
           (log w @ [Call (aiohttp_request \<lparr>jar = njars w, session_headers = []\<rparr> ''GET''
                             (BASE_URL @ ''/cookies/set?session=abc123'')) (Inr r1)]) = (Inr r2, d2)"
  shows "get_cookies_request_aiohttp ev w =
     (Inr (r2, d1 + d2),
      w\<lparr>clock := clock w + d1 + d2,
        log := log w @
          [Call (aiohttp_request \<lparr>jar = njars w, session_headers = []\<rparr> ''GET''
                   (BASE_URL @ ''/cookies/set?session=abc123'')) (Inr r1),
           Call (aiohttp_request \<lparr>jar = njars w, session_headers = []\<rparr> ''GET''
                   (BASE_URL @ ''/cookies'')) (Inr r2)],
        njars := njars w + 1\<rparr>)"
  using assms
  by (simp add: get_cookies_request_aiohttp_def measure_time_async_eq with_aiohttp_session_def
        ClientSession_apply eval_simps)

lemma sends_cookies_httpbin:
  "send httpbin (http ''GET'' (BASE_URL @ ''/cookies/set?session=abc123'')) hist =
     (Inr (ok_response (BASE_URL @ ''/cookies/set?session=abc123'')), 1/5)"
  "send httpbin ((http ''GET'' (BASE_URL @ ''/cookies/set?session=abc123''))
                   \<lparr>headers := [], cookiejar := Some j\<rparr>) hist =
     (Inr (ok_response (BASE_URL @ ''/cookies/set?session=abc123'')), 1/5)"
  "send httpbin ((http ''GET'' (BASE_URL @ ''/cookies''))\<lparr>headers := [], cookiejar := Some j\<rparr>)
     (hist @ [Call ((http ''GET'' (BASE_URL @ ''/cookies/set?session=abc123''))
                      \<lparr>headers := [], cookiejar := Some j\<rparr>) (Inr r)]) =
     (Inr ((ok_response (BASE_URL @ ''/cookies''))
             \<lparr>json_body := Some (JObj [(''cookies'', JObj [(''session'', JStr ''abc123'')])])\<rparr>), 1/5)"
  "send httpbin (aiohttp_request \<lparr>jar = j, session_headers = []\<rparr> ''GET''
                   (BASE_URL @ ''/cookies/set?session=abc123'')) hist =
     (Inr (ok_response (BASE_URL @ ''/cookies/set?session=abc123'')), 1/5)"
  "send httpbin (aiohttp_request \<lparr>jar = j, session_headers = []\<rparr> ''GET'' (BASE_URL @ ''/cookies''))
     (hist @ [Call (aiohttp_request \<lparr>jar = j, session_headers = []\<rparr> ''GET''
                      (BASE_URL @ ''/cookies/set?session=abc123'')) (Inr r)]) =
     (Inr ((ok_response (BASE_URL @ ''/cookies''))
             \<lparr>json_body := Some (JObj [(''cookies'', JObj [(''session'', JStr ''abc123'')])])\<rparr>), 1/5)"
  "send httpbin ((http ''GET'' (BASE_URL @ ''/cookies''))\<lparr>headers := [(''Cookie'', ''session=abc123'')]\<rparr>)
     hist =
     (Inr ((ok_response (BASE_URL @ ''/cookies''))
             \<lparr>json_body := Some (JObj [(''cookies'', JObj [(''session'', JStr ''abc123'')])])\<rparr>), 1/5)"
proof -
  have jar: "jar_session (hist @ [Call rq (Inr r)]) j = Some ''abc123''"
    if "cookiejar rq = Some j" "url rq = BASE_URL @ ''/cookies/set?session=abc123''" for rq
    using that by (simp add: jar_session_snoc strip_set_url)
  show "send httpbin (http ''GET'' (BASE_URL @ ''/cookies/set?session=abc123'')) hist =
     (Inr (ok_response (BASE_URL @ ''/cookies/set?session=abc123'')), 1/5)"
    "send httpbin ((http ''GET'' (BASE_URL @ ''/cookies/set?session=abc123''))
                   \<lparr>headers := [], cookiejar := Some j\<rparr>) hist =
     (Inr (ok_response (BASE_URL @ ''/cookies/set?session=abc123'')), 1/5)"
    "send httpbin (aiohttp_request \<lparr>jar = j, session_headers = []\<rparr> ''GET''
                   (BASE_URL @ ''/cookies/set?session=abc123'')) hist =
     (Inr (ok_response (BASE_URL @ ''/cookies/set?session=abc123'')), 1/5)"
    by (simp_all add: httpbin_def httpbin_send_def aiohttp_request_def http_def BASE_URL_def Let_def)
  show "send httpbin ((http ''GET'' (BASE_URL @ ''/cookies''))\<lparr>headers := [], cookiejar := Some j\<rparr>)
     (hist @ [Call ((http ''GET'' (BASE_URL @ ''/cookies/set?session=abc123''))
                      \<lparr>headers := [], cookiejar := Some j\<rparr>) (Inr r)]) =
     (Inr ((ok_response (BASE_URL @ ''/cookies''))
             \<lparr>json_body := Some (JObj [(''cookies'', JObj [(''session'', JStr ''abc123'')])])\<rparr>), 1/5)"
    using jar [of "(http ''GET'' (BASE_URL @ ''/cookies/set?session=abc123''))
                      \<lparr>headers := [], cookiejar := Some j\<rparr>"]
    by (simp add: httpbin_def httpbin_send_def http_def Let_def sent_session_cookie_def BASE_URL_def)
  show "send httpbin (aiohttp_request \<lparr>jar = j, session_headers = []\<rparr> ''GET'' (BASE_URL @ ''/cookies''))
     (hist @ [Call (aiohttp_request \<lparr>jar = j, session_headers = []\<rparr> ''GET''
                      (BASE_URL @ ''/cookies/set?session=abc123'')) (Inr r)]) =
     (Inr ((ok_response (BASE_URL @ ''/cookies''))
             \<lparr>json_body := Some (JObj [(''cookies'', JObj [(''session'', JStr ''abc123'')])])\<rparr>), 1/5)"
    using jar [of "aiohttp_request \<lparr>jar = j, session_headers = []\<rparr> ''GET''
                      (BASE_URL @ ''/cookies/set?session=abc123'')"]
    by (simp add: httpbin_def httpbin_send_def aiohttp_request_def http_def Let_def
          sent_session_cookie_def BASE_URL_def)
  show "send httpbin ((http ''GET'' (BASE_URL @ ''/cookies''))\<lparr>headers := [(''Cookie'', ''session=abc123'')]\<rparr>)
     hist =
     (Inr ((ok_response (BASE_URL @ ''/cookies''))
             \<lparr>json_body := Some (JObj [(''cookies'', JObj [(''session'', JStr ''abc123'')])])\<rparr>), 1/5)"
    by (simp add: httpbin_def httpbin_send_def http_def Let_def sent_session_cookie_def
          strip_prefix_def BASE_URL_def)
qed

lemma sends_cookies_httpbin_urllib:
  "send httpbin_urllib ((http ''GET'' (BASE_URL @ ''/cookies/set?session=abc123''))
                          \<lparr>cookiejar := Some j\<rparr>) hist =
     (Inr (ok_response (BASE_URL @ ''/cookies/set?session=abc123'')), 1/5)"
  "send httpbin_urllib ((http ''GET'' (BASE_URL @ ''/cookies''))\<lparr>cookiejar := Some j\<rparr>)
     (hist @ [Call ((http ''GET'' (BASE_URL @ ''/cookies/set?session=abc123''))
                      \<lparr>cookiejar := Some j\<rparr>) (Inr r)]) =
     (Inr ((ok_response (BASE_URL @ ''/cookies''))
             \<lparr>json_body := Some (JObj [(''cookies'', JObj [(''session'', JStr ''abc123'')])])\<rparr>), 1/5)"
proof -
  have same: "(http m u)\<lparr>cookiejar := Some j\<rparr> = (http m u)\<lparr>headers := [], cookiejar := Some j\<rparr>"
    for m u
    by (simp add: http_def)
  show "send httpbin_urllib ((http ''GET'' (BASE_URL @ ''/cookies/set?session=abc123''))
                          \<lparr>cookiejar := Some j\<rparr>) hist =
     (Inr (ok_response (BASE_URL @ ''/cookies/set?session=abc123'')), 1/5)"
    using sends_cookies_httpbin(2) [of j hist]
    by (simp add: same httpbin_urllib_def httpbin_def ok_response_def)
  show "send httpbin_urllib ((http ''GET'' (BASE_URL @ ''/cookies''))\<lparr>cookiejar := Some j\<rparr>)
     (hist @ [Call ((http ''GET'' (BASE_URL @ ''/cookies/set?session=abc123''))
                      \<lparr>cookiejar := Some j\<rparr>) (Inr r)]) =
     (Inr ((ok_response (BASE_URL @ ''/cookies''))
             \<lparr>json_body := Some (JObj [(''cookies'', JObj [(''session'', JStr ''abc123'')])])\<rparr>), 1/5)"
    using sends_cookies_httpbin(3) [of j hist r]
    by (simp add: same httpbin_urllib_def httpbin_def ok_response_def)
qed

lemma urlopen_urllib3_exhausted:
  assumes "send ev rq (log w) = (Inl Timeout, d1)"
    and "send ev rq (log w @ [Call rq (Inl Timeout)]) = (Inl Timeout, d2)"
    and "send ev rq (log w @ [Call rq (Inl Timeout), Call rq (Inl Timeout)]) = (Inl Timeout, d3)"
    and "send ev rq (log w @ [Call rq (Inl Timeout), Call rq (Inl Timeout), Call rq (Inl Timeout)]) =
           (Inl Timeout, d4)"
  shows "request_urllib3 ev rq w =
     (Inl MaxRetryError,
      w\<lparr>clock := clock w + d1 + d2 + d3 + d4,
        log := log w @ [Call rq (Inl Timeout), Call rq (Inl Timeout),
                        Call rq (Inl Timeout), Call rq (Inl Timeout)]\<rparr>)"
  using assms
  by (simp add: request_urllib3_def numeral_3_eq_3 try_except_apply raise_apply call_apply)

section \<open>The timing decorator: what it returns\<close>

text \<open>
  C2, as the code has it. When the timed function returns a value, \<^verbatim>\<open>measure_time\<close> and
  \<^verbatim>\<open>measure_time_async\<close> return that very value paired with the difference of the two
  clock readings, which is not negative when the clock did not go back meanwhile. When the
  function raises, the wrapper raises the same exception: no pair, and so no elapsed time,
  is produced.
\<close>

theorem measure_time_result:
  "(func w = (Inr x, w') \<longrightarrow>
      measure_time func w = (Inr (x, clock w' - clock w), w') \<and>
      measure_time_async func w = (Inr (x, clock w' - clock w), w') \<and>
      (clock w \<le> clock w' \<longrightarrow> 0 \<le> clock w' - clock w)) \<and>
   (func w = (Inl e, w') \<longrightarrow>
      measure_time func w = (Inl e, w') \<and> measure_time_async func w = (Inl e, w'))"
  by (simp add: measure_time_async_eq measure_time_Inr measure_time_Inl)

theorem measure_time_result_witness:
  "measure_time (call httpbin (http ''GET'' (BASE_URL @ ''/get''))) world0 =
     (Inr (ok_response (BASE_URL @ ''/get''), 1/5),
      world0\<lparr>clock := 1/5,
        log := [Call (http ''GET'' (BASE_URL @ ''/get'')) (Inr (ok_response (BASE_URL @ ''/get'')))]\<rparr>) \<and>
   measure_time_async
       (call (unreachable [BASE_URL @ ''/get'']) (http ''GET'' (BASE_URL @ ''/get''))) world0 =
     (Inl TransportError,
      world0\<lparr>clock := 1/10,
        log := [Call (http ''GET'' (BASE_URL @ ''/get'')) (Inl TransportError)]\<rparr>)"
  using measure_time_result [where func = "call httpbin (http ''GET'' (BASE_URL @ ''/get''))"
      and w = world0 and x = "ok_response (BASE_URL @ ''/get'')"
      and w' = "world0\<lparr>clock := 1/5,
        log := [Call (http ''GET'' (BASE_URL @ ''/get'')) (Inr (ok_response (BASE_URL @ ''/get'')))]\<rparr>"]
    measure_time_result
      [where func = "call (unreachable [BASE_URL @ ''/get'']) (http ''GET'' (BASE_URL @ ''/get''))"
      and w = world0 and e = TransportError
      and w' = "world0\<lparr>clock := 1/10,
        log := [Call (http ''GET'' (BASE_URL @ ''/get'')) (Inl TransportError)]\<rparr>"]
    get_ok get_down
  by (simp add: world0_def)

text \<open>
  C2 as the specification states it fails: a call that raises after a tenth of a second
  leaves the wrapper with the exception alone.
\<close>

theorem measure_time_loses_elapsed_on_failure:
  "measure_time
       (call (unreachable [BASE_URL @ ''/get'']) (http ''GET'' (BASE_URL @ ''/get''))) world0 =
     (Inl TransportError,
      world0\<lparr>clock := 1/10,
        log := [Call (http ''GET'' (BASE_URL @ ''/get'')) (Inl TransportError)]\<rparr>)"
  using get_down by (rule measure_time_Inl)

section \<open>A status outside 2xx is a result, not a failure\<close>



section \<open>The temporary file of the upload scenario\<close>

text \<open>
  C10 at its failing input. \<^verbatim>\<open>file_upload_request\<close> of \<^verbatim>\<open>requests_lib.py\<close>,
  \<^verbatim>\<open>urllib_request_lib.py\<close> and \<^verbatim>\<open>aiohttp_lib.py\<close> creates the temporary file with
  \<^verbatim>\<open>delete=False\<close> and writes Cyrillic text into it before the \<^verbatim>\<open>try\<close> whose \<^verbatim>\<open>finally\<close>
  removes the file. In a process whose locale cannot encode the text the write raises; the
  exception leaves the scenario, \<^verbatim>\<open>os.unlink\<close> is never reached, no call is issued, and the
  file that was created stays, where no file existed before.
\<close>

theorem file_upload_request_leaves_temp_file:
  "file_upload_request ascii_locale world0 =
     (Inl UnicodeEncodeError, world0\<lparr>files := [(''/tmp/tmp.txt'', [])]\<rparr>) \<and>
   file_upload_request_urllib ascii_locale world0 =
     (Inl UnicodeEncodeError, world0\<lparr>files := [(''/tmp/tmp.txt'', [])]\<rparr>) \<and>
   file_upload_request_aiohttp ascii_locale world0 =
     (Inl UnicodeEncodeError, world0\<lparr>files := [(''/tmp/tmp.txt'', [])], njars := 1\<rparr>) \<and>
   files world0 = [] \<and> log world0 = []"
  by (simp add: file_upload_request_def file_upload_request_urllib_def
        file_upload_request_aiohttp_def measure_time_async_eq with_aiohttp_session_def
        ClientSession_apply eval_simps ascii_locale_def httpbin_def tmp_name_def world0_def)

section \<open>The byte-streaming scenario\<close>

text \<open>
  C8. \<^verbatim>\<open>stream_bytes_request\<close> of \<^verbatim>\<open>requests_lib.py\<close>, \<^verbatim>\<open>urllib3_lib.py\<close> and
  \<^verbatim>\<open>aiohttp_lib.py\<close> issues one streamed GET of \<open>/bytes/1024\<close> and, when it is answered,
  returns the response with the sum of the lengths of the chunks that the read with chunk
  size 256 delivers, whatever they are; the sequence of chunks is a list, so it is finite.
  When the chunks are the body cut in pieces and the body has 1024 bytes, as the service
  promises for this address, the sum of the chunk lengths, and so the total returned, is
  exactly 1024.
\<close>

theorem stream_bytes_total:
  "(send ev ((http ''GET'' (BASE_URL @ ''/bytes/1024''))\<lparr>stream := True\<rparr>) (log w) = (Inr r, d) \<longrightarrow>
      stream_bytes_request ev w =
        (Inr ((r, sum_list (map (\<lambda>chunk. int (length chunk)) (iter_content ev 256 r))), d),
         w\<lparr>clock := clock w + d,
           log := log w @ [Call ((http ''GET'' (BASE_URL @ ''/bytes/1024''))\<lparr>stream := True\<rparr>) (Inr r)]\<rparr>) \<and>
      stream_bytes_request_urllib3 ev w =
        (Inr ((r, sum_list (map (\<lambda>chunk. int (length chunk)) (iter_content ev 256 r))), d),
         w\<lparr>clock := clock w + d,
           log := log w @ [Call ((http ''GET'' (BASE_URL @ ''/bytes/1024''))\<lparr>stream := True\<rparr>) (Inr r)]\<rparr>) \<and>
      (chunked_read ev 256 r \<longrightarrow> length (content r) = 1024 \<longrightarrow>
         sum_list (map (\<lambda>chunk. int (length chunk)) (iter_content ev 256 r)) = 1024 \<and>
         fst (stream_bytes_request ev w) = Inr ((r, 1024), d) \<and>
         fst (stream_bytes_request_urllib3 ev w) = Inr ((r, 1024), d))) \<and>
   (send ev (aiohttp_request \<lparr>jar = njars w, session_headers = []\<rparr> ''GET'' (BASE_URL @ ''/bytes/1024''))
        (log w) = (Inr r, d) \<longrightarrow>
      stream_bytes_request_aiohttp ev w =
        (Inr ((r, sum_list (map (\<lambda>chunk. int (length chunk)) (iter_content ev 256 r))), d),
         w\<lparr>clock := clock w + d,
           log := log w @ [Call (aiohttp_request \<lparr>jar = njars w, session_headers = []\<rparr> ''GET''
                                   (BASE_URL @ ''/bytes/1024'')) (Inr r)],
           njars := njars w + 1\<rparr>) \<and>
      (chunked_read ev 256 r \<longrightarrow> length (content r) = 1024 \<longrightarrow>
         sum_list (map (\<lambda>chunk. int (length chunk)) (iter_content ev 256 r)) = 1024 \<and>
         fst (stream_bytes_request_aiohttp ev w) = Inr ((r, 1024), d)))"
proof -
  have total: "sum_list (map (\<lambda>chunk. int (length chunk)) (iter_content ev 256 r)) = 1024"
    if "chunked_read ev 256 r" "length (content r) = 1024"
    using that by (simp add: chunked_total)
  have req: "stream_bytes_request ev w =
        (Inr ((r, sum_list (map (\<lambda>chunk. int (length chunk)) (iter_content ev 256 r))), d),
         w\<lparr>clock := clock w + d,
           log := log w @ [Call ((http ''GET'' (BASE_URL @ ''/bytes/1024''))\<lparr>stream := True\<rparr>) (Inr r)]\<rparr>)"
    if "send ev ((http ''GET'' (BASE_URL @ ''/bytes/1024''))\<lparr>stream := True\<rparr>) (log w) = (Inr r, d)"
    using that by (simp add: stream_bytes_request_def eval_simps Let_def)
  have u3: "stream_bytes_request_urllib3 ev w =
        (Inr ((r, sum_list (map (\<lambda>chunk. int (length chunk)) (iter_content ev 256 r))), d),
         w\<lparr>clock := clock w + d,
           log := log w @ [Call ((http ''GET'' (BASE_URL @ ''/bytes/1024''))\<lparr>stream := True\<rparr>) (Inr r)]\<rparr>)"
    if "send ev ((http ''GET'' (BASE_URL @ ''/bytes/1024''))\<lparr>stream := True\<rparr>) (log w) = (Inr r, d)"
    using request_urllib3_Inr [OF that]
    by (simp add: stream_bytes_request_urllib3_def measure_time_apply pbind_apply ret_apply Let_def)
  have aio: "stream_bytes_request_aiohttp ev w =
        (Inr ((r, sum_list (map (\<lambda>chunk. int (length chunk)) (iter_content ev 256 r))), d),
         w\<lparr>clock := clock w + d,
           log := log w @ [Call (aiohttp_request \<lparr>jar = njars w, session_headers = []\<rparr> ''GET''
                                   (BASE_URL @ ''/bytes/1024'')) (Inr r)],
           njars := njars w + 1\<rparr>)"
    if "send ev (aiohttp_request \<lparr>jar = njars w, session_headers = []\<rparr> ''GET''
          (BASE_URL @ ''/bytes/1024'')) (log w) = (Inr r, d)"
    using that
    by (simp add: stream_bytes_request_aiohttp_def measure_time_async_eq with_aiohttp_session_def
          ClientSession_apply eval_simps Let_def)
  show ?thesis
    using total req u3 aio by (simp add: total)
qed

theorem stream_bytes_total_witness:
  "fst (stream_bytes_request httpbin world0) =
     Inr (((ok_response (BASE_URL @ ''/bytes/1024''))
             \<lparr>content := bytes_1024, json_body := None\<rparr>, 1024), 1/5) \<and>
   fst (stream_bytes_request_urllib3 httpbin world0) =
     Inr (((ok_response (BASE_URL @ ''/bytes/1024''))
             \<lparr>content := bytes_1024, json_body := None\<rparr>, 1024), 1/5) \<and>
   fst (stream_bytes_request_aiohttp httpbin world0) =
     Inr (((ok_response (BASE_URL @ ''/bytes/1024''))
             \<lparr>content := bytes_1024, json_body := None\<rparr>, 1024), 1/5) \<and>
   sum_list (map (\<lambda>chunk. int (length chunk))
      (iter_content httpbin 256 ((ok_response (BASE_URL @ ''/bytes/1024''))
             \<lparr>content := bytes_1024, json_body := None\<rparr>))) = 1024"
proof -
  let ?r = "(ok_response (BASE_URL @ ''/bytes/1024''))\<lparr>content := bytes_1024, json_body := None\<rparr>"
  have len: "length (content ?r) = 1024"
    by (simp add: length_bytes_1024)
  have chunks: "chunked_read httpbin 256 ?r"
    by (rule chunked_read_httpbin) simp
  show ?thesis
    using stream_bytes_total [where ev = httpbin and w = world0 and d = "1/5" and r = ?r]
      send_bytes_httpbin send_bytes_httpbin_aiohttp len chunks
    by blast
qed

section \<open>The timeout scenario\<close>

text \<open>
  C3, as \<^verbatim>\<open>requests_lib.py\<close> has it. When the library raises its timeout exception for
  the call to \<open>/delay/5\<close> with timeout 3, \<^verbatim>\<open>delay_5_timeout_request\<close> returns \<^verbatim>\<open>None\<close>,
  never a response, after that one call, and the elapsed time it returns is the time the
  call took: at least the timeout of 3 seconds, for a library that raises the timeout
  exception no earlier than the timeout it was given. The code sets no upper bound on the
  elapsed time. (The scenario of \<^verbatim>\<open>urllib3_lib.py\<close> is the subject of X6 below.)
\<close>

theorem timeout_scenario_returns_None:
  "send ev ((http ''GET'' (BASE_URL @ ''/delay/5''))\<lparr>timeout := Some 3\<rparr>) (log w) = (Inl Timeout, d) \<Longrightarrow>
   timeout_honoured ev \<Longrightarrow>
   delay_5_timeout_request ev w =
     (Inr (None, d),
      w\<lparr>clock := clock w + d,
        log := log w @ [Call ((http ''GET'' (BASE_URL @ ''/delay/5''))\<lparr>timeout := Some 3\<rparr>)
                          (Inl Timeout)]\<rparr>) \<and>
   3 \<le> d"
proof -
  assume sent: "send ev ((http ''GET'' (BASE_URL @ ''/delay/5''))\<lparr>timeout := Some 3\<rparr>) (log w) =
      (Inl Timeout, d)"
    and honoured: "timeout_honoured ev"
  have "timeout ((http ''GET'' (BASE_URL @ ''/delay/5''))\<lparr>timeout := Some 3\<rparr>) = Some 3"
    by simp
  with sent honoured have "3 \<le> d"
    unfolding timeout_honoured_def by blast
  with sent show ?thesis
    by (simp add: delay_5_timeout_request_def timeout_None)
qed

theorem timeout_scenario_returns_None_witness:
  "delay_5_timeout_request httpbin world0 =
     (Inr (None, 3),
      world0\<lparr>clock := 3,
        log := [Call ((http ''GET'' (BASE_URL @ ''/delay/5''))\<lparr>timeout := Some 3\<rparr>) (Inl Timeout)]\<rparr>)"
  using timeout_scenario_returns_None [OF send_delay5_httpbin timeout_honoured_httpbin, of world0]
  by (simp add: world0_def)

text \<open>
  C3 as the specification states it fails on the upper bound: through a connection that is
  slow to open, the timeout exception of \<^verbatim>\<open>requests\<close> comes after five and a half seconds,
  later than the five seconds of the server's delay.
\<close>

theorem timeout_elapsed_exceeds_server_delay:
  "delay_5_timeout_request slow_connect world0 =
     (Inr (None, 11/2),
      world0\<lparr>clock := 11/2,
        log := [Call ((http ''GET'' (BASE_URL @ ''/delay/5''))\<lparr>timeout := Some 3\<rparr>) (Inl Timeout)]\<rparr>) \<and>
   \<not> (11/2 :: rat) < 5"
  using timeout_None [OF send_delay5_slow]
  by (simp add: delay_5_timeout_request_def world0_def)

section \<open>The no-redirect scenario of urllib\_request\_lib.py\<close>

text \<open>
  C5 at its failing input. \<^verbatim>\<open>no_redirect_request\<close> of \<^verbatim>\<open>urllib_request_lib.py\<close> filters the
  \<^verbatim>\<open>HTTPRedirectHandler\<close> out of the default handlers and passes the rest to
  \<^verbatim>\<open>build_opener\<close>, which puts a new one in: the call allows redirects. On the reference
  service the scenario returns status 200 with the URL of the redirect's target.
\<close>

theorem no_redirect_request_urllib_follows_redirect:
  "no_redirect_request_urllib httpbin_urllib world0 =
     (Inr (ok_response (BASE_URL @ ''/get''), 2/5),
      world0\<lparr>clock := 2/5,
        log := [Call (http ''GET'' (BASE_URL @ ''/redirect/1''))
                  (Inr (ok_response (BASE_URL @ ''/get'')))]\<rparr>) \<and>
   allow_redirects (http ''GET'' (BASE_URL @ ''/redirect/1'')) \<and>
   status_code (ok_response (BASE_URL @ ''/get'')) = 200 \<and>
   resp_url (ok_response (BASE_URL @ ''/get'')) = BASE_URL @ ''/get''"
  using timed_urlopen_Inr [OF send_redirect_httpbin_urllib]
  by (simp add: no_redirect_request_urllib_is_urlopen world0_def http_def ok_response_def)

section \<open>The digest-auth scenario without digest support\<close>

text \<open>
  C6, as the code has it. In \<^verbatim>\<open>urllib_request_lib.py\<close> and \<^verbatim>\<open>urllib3_lib.py\<close>, whose
  libraries have no digest authentication, \<^verbatim>\<open>digest_auth_request\<close> is the same program
  as \<^verbatim>\<open>get_request\<close>: a plain GET of \<open>/get\<close>, returned as an ordinary response with its
  time. When \<^verbatim>\<open>test_authentication\<close> returns, it has printed that response's status
  under the label \<open>Digest Auth (fallback)\<close>, the only mark of the substitution, and has put
  the time into the group's results as \<open>digest_time\<close>, next to \<open>basic_time\<close>. In
  particular, when both calls of the group are answered, the group returns the two times
  of the calls and has printed the two statuses the service gave.
\<close>

theorem digest_fallback_is_an_ordinary_result:
  "digest_auth_request_urllib ev = get_request_urllib ev \<and>
   digest_auth_request_urllib3 ev = get_request_urllib3 ev \<and>
   (test_authentication_urllib ev w = (Inr res, w') \<longrightarrow>
      (\<exists>(r1::response) t1 (r2::response) t2.
         res = [(''basic_time'', t1), (''digest_time'', t2)] \<and>
         out w' = out w @ [Line ''=== 4. Authentication ==='' [],
                           Line ''Basic Auth'' [AInt (status_code r1), ATime t1],
                           Line ''Digest Auth (fallback)'' [AInt (status_code r2), ATime t2]])) \<and>
   (test_authentication_urllib3 ev w = (Inr res, w') \<longrightarrow>
      (\<exists>(r1::response) t1 (r2::response) t2.
         res = [(''basic_time'', t1), (''digest_time'', t2)] \<and>
         out w' = out w @ [Line ''=== 4. Authentication ==='' [],
                           Line ''Basic Auth'' [AInt (status_code r1), ATime t1],
                           Line ''Digest Auth (fallback)'' [AInt (status_code r2), ATime t2]])) \<and>
   (send ev ((http ''GET'' (BASE_URL @ ''/basic-auth/user/pass''))
               \<lparr>headers := [(''Authorization'', ''Basic dXNlcjpwYXNz'')]\<rparr>) (log w) = (Inr rb, tb) \<longrightarrow>
    send ev (http ''GET'' (BASE_URL @ ''/get''))
         (log w @ [Call ((http ''GET'' (BASE_URL @ ''/basic-auth/user/pass''))
               \<lparr>headers := [(''Authorization'', ''Basic dXNlcjpwYXNz'')]\<rparr>) (Inr rb)]) = (Inr rd, td) \<longrightarrow>
      test_authentication_urllib ev w =
          (Inr [(''basic_time'', tb), (''digest_time'', td)],
           w\<lparr>clock := clock w + tb + td,
             log := log w @ [Call ((http ''GET'' (BASE_URL @ ''/basic-auth/user/pass''))
                               \<lparr>headers := [(''Authorization'', ''Basic dXNlcjpwYXNz'')]\<rparr>) (Inr rb),
                             Call (http ''GET'' (BASE_URL @ ''/get'')) (Inr rd)],
             out := out w @ [Line ''=== 4. Authentication ==='' [],
                             Line ''Basic Auth'' [AInt (status_code rb), ATime tb],
                             Line ''Digest Auth (fallback)'' [AInt (status_code rd), ATime td]]\<rparr>) \<and>
      test_authentication_urllib3 ev w =
          (Inr [(''basic_time'', tb), (''digest_time'', td)],
           w\<lparr>clock := clock w + tb + td,
             log := log w @ [Call ((http ''GET'' (BASE_URL @ ''/basic-auth/user/pass''))
                               \<lparr>headers := [(''Authorization'', ''Basic dXNlcjpwYXNz'')]\<rparr>) (Inr rb),
                             Call (http ''GET'' (BASE_URL @ ''/get'')) (Inr rd)],
             out := out w @ [Line ''=== 4. Authentication ==='' [],
                             Line ''Basic Auth'' [AInt (status_code rb), ATime tb],
                             Line ''Digest Auth (fallback)'' [AInt (status_code rd), ATime td]]\<rparr>))"
proof -
  have 3: "test_authentication_urllib ev w =
          (Inr [(''basic_time'', tb), (''digest_time'', td)],
           w\<lparr>clock := clock w + tb + td,
             log := log w @ [Call ((http ''GET'' (BASE_URL @ ''/basic-auth/user/pass''))
                               \<lparr>headers := [(''Authorization'', ''Basic dXNlcjpwYXNz'')]\<rparr>) (Inr rb),
                             Call (http ''GET'' (BASE_URL @ ''/get'')) (Inr rd)],
             out := out w @ [Line ''=== 4. Authentication ==='' [],
                             Line ''Basic Auth'' [AInt (status_code rb), ATime tb],
                             Line ''Digest Auth (fallback)'' [AInt (status_code rd), ATime td]]\<rparr>) \<and>
      test_authentication_urllib3 ev w =
          (Inr [(''basic_time'', tb), (''digest_time'', td)],
           w\<lparr>clock := clock w + tb + td,
             log := log w @ [Call ((http ''GET'' (BASE_URL @ ''/basic-auth/user/pass''))
                               \<lparr>headers := [(''Authorization'', ''Basic dXNlcjpwYXNz'')]\<rparr>) (Inr rb),
                             Call (http ''GET'' (BASE_URL @ ''/get'')) (Inr rd)],
             out := out w @ [Line ''=== 4. Authentication ==='' [],
                             Line ''Basic Auth'' [AInt (status_code rb), ATime tb],
                             Line ''Digest Auth (fallback)'' [AInt (status_code rd), ATime td]]\<rparr>)"
    if "send ev ((http ''GET'' (BASE_URL @ ''/basic-auth/user/pass''))
               \<lparr>headers := [(''Authorization'', ''Basic dXNlcjpwYXNz'')]\<rparr>) (log w) = (Inr rb, tb)"
      "send ev (http ''GET'' (BASE_URL @ ''/get''))
         (log w @ [Call ((http ''GET'' (BASE_URL @ ''/basic-auth/user/pass''))
               \<lparr>headers := [(''Authorization'', ''Basic dXNlcjpwYXNz'')]\<rparr>) (Inr rb)]) = (Inr rd, td)"
    using auth_urllib_exact [OF that] auth_urllib3_exact [OF that] by simp
  have 1: "\<exists>(r1::response) t1 (r2::response) t2.
         res = [(''basic_time'', t1), (''digest_time'', t2)] \<and>
         out w' = out w @ [Line ''=== 4. Authentication ==='' [],
                           Line ''Basic Auth'' [AInt (status_code r1), ATime t1],
                           Line ''Digest Auth (fallback)'' [AInt (status_code r2), ATime t2]]"
    if "test_authentication_urllib ev w = (Inr res, w')"
    by (rule auth_group_result [OF that [unfolded test_authentication_urllib_def]])
       (simp_all add: basic_auth_request_urllib_def digest_auth_request_urllib_def urlopen_def
          opener_open_def out_timed_call)
  have 2: "\<exists>(r1::response) t1 (r2::response) t2.
         res = [(''basic_time'', t1), (''digest_time'', t2)] \<and>
         out w' = out w @ [Line ''=== 4. Authentication ==='' [],
                           Line ''Basic Auth'' [AInt (status_code r1), ATime t1],
                           Line ''Digest Auth (fallback)'' [AInt (status_code r2), ATime t2]]"
    if "test_authentication_urllib3 ev w = (Inr res, w')"
    by (rule auth_group_result [OF that [unfolded test_authentication_urllib3_def]])
       (simp_all add: basic_auth_request_urllib3_def digest_auth_request_urllib3_def
          out_timed_request_urllib3)
  show ?thesis
    using digest_is_get 1 2 3 by blast
qed

theorem digest_fallback_is_an_ordinary_result_witness:
  "digest_auth_request_urllib httpbin_urllib = get_request_urllib httpbin_urllib \<and>
   (\<exists>(r1::response) t1 (r2::response) t2.
      [(''basic_time'', 1/5), (''digest_time'', 1/5)] = [(''basic_time'', t1), (''digest_time'', t2)] \<and>
      out (snd (test_authentication_urllib httpbin_urllib world0)) = out world0 @
        [Line ''=== 4. Authentication ==='' [],
         Line ''Basic Auth'' [AInt (status_code r1), ATime t1],
         Line ''Digest Auth (fallback)'' [AInt (status_code r2), ATime t2]])"
proof -
  have "test_authentication_urllib httpbin_urllib world0 =
      (Inr [(''basic_time'', 1/5), (''digest_time'', 1/5)],
       snd (test_authentication_urllib httpbin_urllib world0))"
    by (simp add: test_authentication_urllib_httpbin)
  then show ?thesis
    using digest_fallback_is_an_ordinary_result [where ev = httpbin_urllib and w = world0
        and res = "[(''basic_time'', 1/5), (''digest_time'', 1/5)]"
        and w' = "snd (test_authentication_urllib httpbin_urllib world0)"]
    by blast
qed

text \<open>
  C6 as the specification states it fails: on the reference service the digest scenario
  gives exactly the outcome of the plain GET, a response with status 200, and the group
  reports it as that, under the label \<open>Digest Auth (fallback)\<close> and with its time among
  the results; no outcome is marked unsupported.
\<close>

theorem digest_fallback_reported_as_success:
  "digest_auth_request_urllib httpbin_urllib world0 = get_request_urllib httpbin_urllib world0 \<and>
   fst (digest_auth_request_urllib httpbin_urllib world0) = Inr (ok_response (BASE_URL @ ''/get''), 1/5) \<and>
   fst (test_authentication_urllib3 httpbin world0) =
     Inr [(''basic_time'', 1/5), (''digest_time'', 1/5)] \<and>
   out (snd (test_authentication_urllib3 httpbin world0)) =
     [Line ''=== 4. Authentication ==='' [],
      Line ''Basic Auth'' [AInt 200, ATime (1/5)],
      Line ''Digest Auth (fallback)'' [AInt 200, ATime (1/5)]] \<and>
   map url (issued (log (snd (test_authentication_urllib3 httpbin world0)))) =
     [BASE_URL @ ''/basic-auth/user/pass'', BASE_URL @ ''/get'']"
  by code_simp

section \<open>The cookie round trip\<close>

text \<open>
  C9. Let the service echo the session cookie a call carries (\<open>cookie_echo\<close>), and let
  it answer the calls of the scenario. Then \<^verbatim>\<open>test_cookies\<close> of \<^verbatim>\<open>requests_lib.py\<close> sets
  \<open>session=abc123\<close> through a new \<^verbatim>\<open>Session\<close>, retrieves \<open>/cookies\<close> through the same
  session, and prints the \<open>cookies\<close> field of the JSON body of that retrieval, which holds
  \<open>session = abc123\<close>; \<^verbatim>\<open>get_cookies_request\<close> of \<^verbatim>\<open>aiohttp_lib.py\<close> sets and retrieves
  through one \<^verbatim>\<open>ClientSession\<close> and returns the response of the retrieval, which holds it;
  and \<^verbatim>\<open>get_cookies_request\<close> of \<^verbatim>\<open>urllib3_lib.py\<close>, which has no jar, sends the cookie in
  an explicit \<open>Cookie\<close> header and returns the response, which holds it.
\<close>

theorem cookie_round_trip:
  assumes "cookie_echo ev"
  shows
  "(send ev (http ''GET'' (BASE_URL @ ''/cookies/set?session=abc123'')) (log w) = (Inr r0, d0) \<longrightarrow>
    send ev ((http ''GET'' (BASE_URL @ ''/cookies/set?session=abc123''))
               \<lparr>headers := [], cookiejar := Some (njars w)\<rparr>)
         (log w @ [Call (http ''GET'' (BASE_URL @ ''/cookies/set?session=abc123'')) (Inr r0)]) =
      (Inr r1, d1) \<longrightarrow>
    send ev ((http ''GET'' (BASE_URL @ ''/cookies''))\<lparr>headers := [], cookiejar := Some (njars w)\<rparr>)
         (log w @ [Call (http ''GET'' (BASE_URL @ ''/cookies/set?session=abc123'')) (Inr r0),
                   Call ((http ''GET'' (BASE_URL @ ''/cookies/set?session=abc123''))
                           \<lparr>headers := [], cookiejar := Some (njars w)\<rparr>) (Inr r1)]) =
      (Inr r2, d2) \<longrightarrow>
      (\<exists>kvs cs.
         json_body r2 = Some (JObj kvs) \<and> map_of kvs ''cookies'' = Some (JObj cs) \<and>
         map_of cs ''session'' = Some (JStr ''abc123'') \<and>
         test_cookies ev w =
           (Inr [(''set_cookie_time'', d0), (''get_cookie_time'', d2)],
            w\<lparr>clock := clock w + d0 + d1 + d2,
              log := log w @
                [Call (http ''GET'' (BASE_URL @ ''/cookies/set?session=abc123'')) (Inr r0),
                 Call ((http ''GET'' (BASE_URL @ ''/cookies/set?session=abc123''))
                         \<lparr>headers := [], cookiejar := Some (njars w)\<rparr>) (Inr r1),
                 Call ((http ''GET'' (BASE_URL @ ''/cookies''))
                         \<lparr>headers := [], cookiejar := Some (njars w)\<rparr>) (Inr r2)],
              out := out w @
                [Line ''=== 5. Cookies ==='' [],
                 Line ''Set cookie'' [AInt (status_code r0), ATime d0],
                 Line ''Get cookies'' [AInt (status_code r2), ATime d2],
                 Line ''Cookies in response'' [AJson (JObj cs)]],
              njars := njars w + 1\<rparr>))) \<and>
   (send ev (aiohttp_request \<lparr>jar = njars w, session_headers = []\<rparr> ''GET''
               (BASE_URL @ ''/cookies/set?session=abc123'')) (log w) = (Inr r1, d1) \<longrightarrow>
    send ev (aiohttp_request \<lparr>jar = njars w, session_headers = []\<rparr> ''GET'' (BASE_URL @ ''/cookies''))
         (log w @ [Call (aiohttp_request \<lparr>jar = njars w, session_headers = []\<rparr> ''GET''
                           (BASE_URL @ ''/cookies/set?session=abc123'')) (Inr r1)]) = (Inr r2, d2) \<longrightarrow>
      get_cookies_request_aiohttp ev w =
        (Inr (r2, d1 + d2),
         w\<lparr>clock := clock w + d1 + d2,
           log := log w @
             [Call (aiohttp_request \<lparr>jar = njars w, session_headers = []\<rparr> ''GET''
                      (BASE_URL @ ''/cookies/set?session=abc123'')) (Inr r1),
              Call (aiohttp_request \<lparr>jar = njars w, session_headers = []\<rparr> ''GET''
                      (BASE_URL @ ''/cookies'')) (Inr r2)],
           njars := njars w + 1\<rparr>) \<and>
      session_cookie r2 = Some ''abc123'') \<and>
   (send ev ((http ''GET'' (BASE_URL @ ''/cookies''))\<lparr>headers := [(''Cookie'', ''session=abc123'')]\<rparr>)
         (log w) = (Inr r2, d2) \<longrightarrow>
      get_cookies_request_urllib3 ev w =
        (Inr (r2, d2),
         w\<lparr>clock := clock w + d2,
           log := log w @
             [Call ((http ''GET'' (BASE_URL @ ''/cookies''))
                      \<lparr>headers := [(''Cookie'', ''session=abc123'')]\<rparr>) (Inr r2)]\<rparr>) \<and>
      session_cookie r2 = Some ''abc123'')"
proof (intro conjI impI)
  assume s0: "send ev (http ''GET'' (BASE_URL @ ''/cookies/set?session=abc123'')) (log w) = (Inr r0, d0)"
    and s1: "send ev ((http ''GET'' (BASE_URL @ ''/cookies/set?session=abc123''))
               \<lparr>headers := [], cookiejar := Some (njars w)\<rparr>)
         (log w @ [Call (http ''GET'' (BASE_URL @ ''/cookies/set?session=abc123'')) (Inr r0)]) =
      (Inr r1, d1)"
    and s2: "send ev ((http ''GET'' (BASE_URL @ ''/cookies''))\<lparr>headers := [], cookiejar := Some (njars w)\<rparr>)
         (log w @ [Call (http ''GET'' (BASE_URL @ ''/cookies/set?session=abc123'')) (Inr r0),
                   Call ((http ''GET'' (BASE_URL @ ''/cookies/set?session=abc123''))
                           \<lparr>headers := [], cookiejar := Some (njars w)\<rparr>) (Inr r1)]) =
      (Inr r2, d2)"
  let ?set = "(http ''GET'' (BASE_URL @ ''/cookies/set?session=abc123''))
                \<lparr>headers := [], cookiejar := Some (njars w)\<rparr>"
  let ?get = "(http ''GET'' (BASE_URL @ ''/cookies''))\<lparr>headers := [], cookiejar := Some (njars w)\<rparr>"
  let ?hist = "log w @ [Call (http ''GET'' (BASE_URL @ ''/cookies/set?session=abc123'')) (Inr r0)]"
  have "send ev ?get (?hist @ [Call ?set (Inr r1)]) = (Inr r2, d2)"
    using s2 by simp
  moreover have "strip_prefix (BASE_URL @ ''/cookies/set?session='') (url ?set) = Some ''abc123''"
    by (simp add: http_def strip_set_url)
  moreover have "url ?get = BASE_URL @ ''/cookies''"
    by (simp add: http_def)
  ultimately have "session_cookie r2 = Some ''abc123''"
    using jar_round_trip [OF assms, where ?rq1.0 = ?set and ?rq2.0 = ?get and j = "njars w"
        and x = "''abc123''" and hist = ?hist and ?r1.0 = r1 and ?r2.0 = r2 and ?d2.0 = d2]
    by simp
  then obtain kvs cs where fields: "json_body r2 = Some (JObj kvs)"
      "map_of kvs ''cookies'' = Some (JObj cs)" "map_of cs ''session'' = Some (JStr ''abc123'')"
    using session_cookie_fields by blast
  from test_cookies_answered [OF s0 s1 s2 fields(1,2)] fields
  show "\<exists>kvs cs.
         json_body r2 = Some (JObj kvs) \<and> map_of kvs ''cookies'' = Some (JObj cs) \<and>
         map_of cs ''session'' = Some (JStr ''abc123'') \<and>
         test_cookies ev w =
           (Inr [(''set_cookie_time'', d0), (''get_cookie_time'', d2)],
            w\<lparr>clock := clock w + d0 + d1 + d2,
              log := log w @
                [Call (http ''GET'' (BASE_URL @ ''/cookies/set?session=abc123'')) (Inr r0),
                 Call ((http ''GET'' (BASE_URL @ ''/cookies/set?session=abc123''))
                         \<lparr>headers := [], cookiejar := Some (njars w)\<rparr>) (Inr r1),
                 Call ((http ''GET'' (BASE_URL @ ''/cookies''))
                         \<lparr>headers := [], cookiejar := Some (njars w)\<rparr>) (Inr r2)],
              out := out w @
                [Line ''=== 5. Cookies ==='' [],
                 Line ''Set cookie'' [AInt (status_code r0), ATime d0],
                 Line ''Get cookies'' [AInt (status_code r2), ATime d2],
                 Line ''Cookies in response'' [AJson (JObj cs)]],
              njars := njars w + 1\<rparr>)"
    by blast
next
  assume a1: "send ev (aiohttp_request \<lparr>jar = njars w, session_headers = []\<rparr> ''GET''
               (BASE_URL @ ''/cookies/set?session=abc123'')) (log w) = (Inr r1, d1)"
    and a2: "send ev (aiohttp_request \<lparr>jar = njars w, session_headers = []\<rparr> ''GET'' (BASE_URL @ ''/cookies''))
         (log w @ [Call (aiohttp_request \<lparr>jar = njars w, session_headers = []\<rparr> ''GET''
                           (BASE_URL @ ''/cookies/set?session=abc123'')) (Inr r1)]) = (Inr r2, d2)"
  show "get_cookies_request_aiohttp ev w =
        (Inr (r2, d1 + d2),
         w\<lparr>clock := clock w + d1 + d2,
           log := log w @
             [Call (aiohttp_request \<lparr>jar = njars w, session_headers = []\<rparr> ''GET''
                      (BASE_URL @ ''/cookies/set?session=abc123'')) (Inr r1),
              Call (aiohttp_request \<lparr>jar = njars w, session_headers = []\<rparr> ''GET''
                      (BASE_URL @ ''/cookies'')) (Inr r2)],
           njars := njars w + 1\<rparr>)"
    by (rule get_cookies_request_aiohttp_answered [OF a1 a2])
  let ?set = "aiohttp_request \<lparr>jar = njars w, session_headers = []\<rparr> ''GET''
                (BASE_URL @ ''/cookies/set?session=abc123'')"
  let ?get = "aiohttp_request \<lparr>jar = njars w, session_headers = []\<rparr> ''GET'' (BASE_URL @ ''/cookies'')"
  have "strip_prefix (BASE_URL @ ''/cookies/set?session='') (url ?set) = Some ''abc123''"
    by (simp add: aiohttp_request_def http_def strip_set_url)
  moreover have "url ?get = BASE_URL @ ''/cookies''" "headers ?get = []"
      "cookiejar ?get = Some (njars w)" "cookiejar ?set = Some (njars w)"
    by (simp_all add: aiohttp_request_def http_def)
  ultimately show "session_cookie r2 = Some ''abc123''"
    using jar_round_trip [OF assms, where ?rq1.0 = ?set and ?rq2.0 = ?get and j = "njars w"
        and x = "''abc123''" and hist = "log w" and ?r1.0 = r1 and ?r2.0 = r2 and ?d2.0 = d2] a2
    by simp
next
  assume u: "send ev ((http ''GET'' (BASE_URL @ ''/cookies''))\<lparr>headers := [(''Cookie'', ''session=abc123'')]\<rparr>)
         (log w) = (Inr r2, d2)"
  show "get_cookies_request_urllib3 ev w =
        (Inr (r2, d2),
         w\<lparr>clock := clock w + d2,
           log := log w @
             [Call ((http ''GET'' (BASE_URL @ ''/cookies''))
                      \<lparr>headers := [(''Cookie'', ''session=abc123'')]\<rparr>) (Inr r2)]\<rparr>)"
    using timed_request_urllib3_Inr [OF u] by (simp add: get_cookies_request_urllib3_def)
  show "session_cookie r2 = Some ''abc123''"
    by (rule header_round_trip [OF assms u])
qed

theorem cookie_round_trip_witness:
  "fst (test_cookies httpbin world0) =
     Inr [(''set_cookie_time'', 1/5), (''get_cookie_time'', 1/5)] \<and>
   out (snd (test_cookies httpbin world0)) =
     [Line ''=== 5. Cookies ==='' [],
      Line ''Set cookie'' [AInt 200, ATime (1/5)],
      Line ''Get cookies'' [AInt 200, ATime (1/5)],
      Line ''Cookies in response'' [AJson (JObj [(''session'', JStr ''abc123'')])]] \<and>
   fst (get_cookies_request_aiohttp httpbin world0) =
     Inr ((ok_response (BASE_URL @ ''/cookies''))
            \<lparr>json_body := Some (JObj [(''cookies'', JObj [(''session'', JStr ''abc123'')])])\<rparr>, 2/5) \<and>
   fst (get_cookies_request_urllib3 httpbin world0) =
     Inr ((ok_response (BASE_URL @ ''/cookies''))
            \<lparr>json_body := Some (JObj [(''cookies'', JObj [(''session'', JStr ''abc123'')])])\<rparr>, 1/5) \<and>
   session_cookie ((ok_response (BASE_URL @ ''/cookies''))
      \<lparr>json_body := Some (JObj [(''cookies'', JObj [(''session'', JStr ''abc123'')])])\<rparr>) = Some ''abc123''"
proof -
  let ?set = "ok_response (BASE_URL @ ''/cookies/set?session=abc123'')"
  let ?got = "(ok_response (BASE_URL @ ''/cookies''))
      \<lparr>json_body := Some (JObj [(''cookies'', JObj [(''session'', JStr ''abc123'')])])\<rparr>"
  let ?rq0 = "http ''GET'' (BASE_URL @ ''/cookies/set?session=abc123'')"
  let ?rq1 = "(http ''GET'' (BASE_URL @ ''/cookies/set?session=abc123''))
                \<lparr>headers := [], cookiejar := Some (njars world0)\<rparr>"
  let ?rq2 = "(http ''GET'' (BASE_URL @ ''/cookies''))
                \<lparr>headers := [], cookiejar := Some (njars world0)\<rparr>"
  let ?a1 = "aiohttp_request \<lparr>jar = njars world0, session_headers = []\<rparr> ''GET''
               (BASE_URL @ ''/cookies/set?session=abc123'')"
  let ?a2 = "aiohttp_request \<lparr>jar = njars world0, session_headers = []\<rparr> ''GET''
               (BASE_URL @ ''/cookies'')"
  note round_trip = cookie_round_trip [OF cookie_echo_httpbin, where w = world0 and ?r0.0 = ?set
      and ?d0.0 = "1/5" and ?r1.0 = ?set and ?d1.0 = "1/5" and ?r2.0 = ?got and ?d2.0 = "1/5"]
  have h0: "send httpbin ?rq0 (log world0) = (Inr ?set, 1/5)"
    by (rule sends_cookies_httpbin)
  have h1: "send httpbin ?rq1 (log world0 @ [Call ?rq0 (Inr ?set)]) = (Inr ?set, 1/5)"
    by (rule sends_cookies_httpbin)
  have h2: "send httpbin ?rq2 (log world0 @ [Call ?rq0 (Inr ?set), Call ?rq1 (Inr ?set)]) =
      (Inr ?got, 1/5)"
    using sends_cookies_httpbin(3) [where hist = "log world0 @ [Call ?rq0 (Inr ?set)]"
        and j = "njars world0" and r = ?set]
    by simp
  have g1: "send httpbin ?a1 (log world0) = (Inr ?set, 1/5)"
    by (rule sends_cookies_httpbin)
  have g2: "send httpbin ?a2 (log world0 @ [Call ?a1 (Inr ?set)]) = (Inr ?got, 1/5)"
    by (rule sends_cookies_httpbin)
  have u: "send httpbin ((http ''GET'' (BASE_URL @ ''/cookies''))
             \<lparr>headers := [(''Cookie'', ''session=abc123'')]\<rparr>) (log world0) = (Inr ?got, 1/5)"
    by (rule sends_cookies_httpbin)
  from round_trip [THEN conjunct1, rule_format, OF h0 h1 h2]
  obtain kvs cs where
      "json_body ?got = Some (JObj kvs)" "map_of kvs ''cookies'' = Some (JObj cs)"
      "fst (test_cookies httpbin world0) =
         Inr [(''set_cookie_time'', 1/5), (''get_cookie_time'', 1/5)]"
      "out (snd (test_cookies httpbin world0)) =
         out world0 @
         [Line ''=== 5. Cookies ==='' [],
          Line ''Set cookie'' [AInt (status_code ?set), ATime (1/5)],
          Line ''Get cookies'' [AInt (status_code ?got), ATime (1/5)],
          Line ''Cookies in response'' [AJson (JObj cs)]]"
    by auto
  then have requests:
      "fst (test_cookies httpbin world0) =
         Inr [(''set_cookie_time'', 1/5), (''get_cookie_time'', 1/5)]"
      "out (snd (test_cookies httpbin world0)) =
         [Line ''=== 5. Cookies ==='' [],
          Line ''Set cookie'' [AInt 200, ATime (1/5)],
          Line ''Get cookies'' [AInt 200, ATime (1/5)],
          Line ''Cookies in response'' [AJson (JObj [(''session'', JStr ''abc123'')])]]"
    by (auto simp: ok_response_def world0_def)
  from round_trip [THEN conjunct2, THEN conjunct1, rule_format, OF g1 g2]
  have aiohttp: "fst (get_cookies_request_aiohttp httpbin world0) = Inr (?got, 2/5)"
      "session_cookie ?got = Some ''abc123''"
    by simp_all
  from round_trip [THEN conjunct2, THEN conjunct2, rule_format, OF u]
  have urllib3: "fst (get_cookies_request_urllib3 httpbin world0) = Inr (?got, 1/5)"
    by simp
  from requests aiohttp urllib3 show ?thesis
    by simp
qed

section \<open>The aggregator after a failing scenario\<close>

text \<open>
  C1, as the code has it. Let the groups \<open>pre\<close> run to their end and let the next group
  raise an exception \<open>e\<close>. If \<open>e\<close> is of class \<^verbatim>\<open>Exception\<close>, \<^verbatim>\<open>run_all_tests\<close> returns
  normally, with the results of \<open>pre\<close> and of no other group; the world it leaves is the
  world at the moment of the failure with the error line and the summary of \<open>pre\<close> printed.
  The groups \<open>post\<close> that follow the failing one do not occur in the result: they are not
  run. If \<open>e\<close> is not of class \<^verbatim>\<open>Exception\<close>, it leaves \<^verbatim>\<open>run_all_tests\<close>.
\<close>

theorem run_all_tests_stops_at_first_failure:
  assumes "run_groups pre [] (w\<lparr>out := out w @ [Line banner []]\<rparr>) = ((None, done), w1)"
    and "test w1 = (Inl e, w2)"
  shows "(is_Exception e \<longrightarrow>
      run_all_tests banner (pre @ (name, test) # post) w =
        (Inr done,
         w2\<lparr>out := out w2 @ [Line ''Error while running tests'' [AExn e],
                               Line ''=== RESULTS SUMMARY ==='' []] @ summary_lines done\<rparr>)) \<and>
    (\<not> is_Exception e \<longrightarrow>
      run_all_tests banner (pre @ (name, test) # post) w = (Inl e, w2))"
proof -
  have "run_groups (pre @ (name, test) # post) [] (w\<lparr>out := out w @ [Line banner []]\<rparr>) =
          ((Some e, done), w2)"
    using assms by (simp add: run_groups_append)
  then show ?thesis
    by (simp add: run_all_tests_apply)
qed

theorem run_all_tests_stops_at_first_failure_witness:
  "fst (run_all_tests_requests (unreachable [BASE_URL @ ''/headers'']) world0) =
     Inr [(''basic'', [(''get_time'', 1/5), (''post_time'', 1/5),
                       (''put_time'', 1/5), (''delete_time'', 1/5)])]"
proof -
  let ?ev = "unreachable [BASE_URL @ ''/headers'']"
  let ?w0 = "world0\<lparr>out := out world0 @ [Line ''=== TESTING THE REQUESTS LIBRARY ==='' []]\<rparr>"
  let ?pre = "[(''basic'', test_basic_requests ?ev)]"
  let ?done = "[(''basic'', [(''get_time'', 1/5), (''post_time'', 1/5),
                            (''put_time'', 1/5::rat), (''delete_time'', 1/5)])]"
  let ?w1 = "snd (run_groups ?pre [] ?w0)"
  let ?w2 = "snd (test_params_and_headers ?ev ?w1)"
  have h1: "run_groups ?pre [] ?w0 = ((None, ?done), ?w1)"
    using basic_then_headers_down by (metis prod.collapse)
  have h2: "test_params_and_headers ?ev ?w1 = (Inl TransportError, ?w2)"
    using basic_then_headers_down by (metis prod.collapse)
  have h3: "is_Exception TransportError"
    by simp
  show ?thesis
    using run_all_tests_stops_at_first_failure [where pre = ?pre and w = world0
        and banner = "''=== TESTING THE REQUESTS LIBRARY ===''" and ?done = ?done and ?w1.0 = ?w1
        and test = "test_params_and_headers ?ev" and e = TransportError and ?w2.0 = ?w2
        and name = "''params''"
        and post = "[(''body_formats'', test_request_body_formats ?ev),
      (''auth'', test_authentication ?ev),
      (''cookies'', test_cookies ?ev),
      (''errors'', test_error_handling ?ev),
      (''redirects'', test_redirects ?ev),
      (''timeouts'', test_timeouts ?ev),
      (''streaming'', test_streaming ?ev),
      (''compression'', test_compression ?ev),
      (''parallel'', test_async_parallel ?ev),
      (''upload'', test_file_upload ?ev),
      (''formats'', test_response_formats ?ev),
      (''sessions'', test_sessions ?ev)]", OF h1 h2] h3
    by (simp add: run_all_tests_requests_def)
qed

text \<open>
  C1 as the specification states it fails: when the digest-auth call of \<^verbatim>\<open>requests_lib.py\<close>
  fails in the transport, the run ends with the results of three groups; the last call
  issued is the failing one, and none of the scenarios of the ten later groups is run.
\<close>

theorem run_all_tests_skips_remaining_scenarios:
  "fst (run_all_tests_requests (unreachable [BASE_URL @ ''/digest-auth/auth/user/pass'']) world0) =
     Inr [(''basic'',
       [(''get_time'', 1 / 5), (''post_time'', 1 / 5),
        (''put_time'', 1 / 5), (''delete_time'', 1 / 5)]),
      (''params'',
       [(''params_time'', 1 / 5), (''headers_time'', 1 / 5),
        (''ua_time'', 1 / 5)]),
      (''body_formats'',
       [(''json_time'', 1 / 5), (''form_time'', 1 / 5),
        (''text_time'', 1 / 5)])] \<and>
   map url (issued (log (snd (run_all_tests_requests
       (unreachable [BASE_URL @ ''/digest-auth/auth/user/pass'']) world0)))) =
     [BASE_URL @ ''/get'', BASE_URL @ ''/post'', BASE_URL @ ''/put'', BASE_URL @ ''/delete'',
      BASE_URL @ ''/get'', BASE_URL @ ''/headers'', BASE_URL @ ''/user-agent'',
      BASE_URL @ ''/post'', BASE_URL @ ''/post'', BASE_URL @ ''/post'',
      BASE_URL @ ''/basic-auth/user/pass'', BASE_URL @ ''/digest-auth/auth/user/pass'']"
  by (simp add: run_all_tests_requests_def run_all_tests_apply eval_simps scenario_defs group_defs
        httpbin_defs world0_def)

section \<open>The summary averages\<close>

text \<open>
  C7, as the code has it. When the delayed call is answered and the call with the timeout
  ends in the library's timeout exception, \<^verbatim>\<open>test_timeouts\<close> prints the line for the
  timeout and returns both times, \<open>delay1_time\<close> and \<open>timeout_time\<close>. The summary loop
  prints, for every group with at least one key ending in \<open>_time\<close>, the mean of all those
  values (\<open>summary_lines\<close>): for the timeouts group the mean of both, the elapsed time of
  the timed-out scenario included.
\<close>

theorem timeout_time_enters_the_average:
  "(send ev (http ''GET'' (BASE_URL @ ''/delay/1'')) (log w) = (Inr r, d1) \<longrightarrow>
    send ev ((http ''GET'' (BASE_URL @ ''/delay/5''))\<lparr>timeout := Some 3\<rparr>)
         (log w @ [Call (http ''GET'' (BASE_URL @ ''/delay/1'')) (Inr r)]) = (Inl Timeout, d2) \<longrightarrow>
      test_timeouts ev w =
        (Inr [(''delay1_time'', d1), (''timeout_time'', d2)],
         w\<lparr>clock := clock w + d1 + d2,
           log := log w @ [Call (http ''GET'' (BASE_URL @ ''/delay/1'')) (Inr r),
                           Call ((http ''GET'' (BASE_URL @ ''/delay/5''))\<lparr>timeout := Some 3\<rparr>)
                             (Inl Timeout)],
           out := out w @ [Line ''=== 8. Timeouts ==='' [],
                           Line ''Delay 1s'' [AInt (status_code r), ATime d1],
                           Line ''Timeout fired after'' [ATime d2]]\<rparr>)) \<and>
   print_summary all_results w = (Inr (), w\<lparr>out := out w @ summary_lines all_results\<rparr>) \<and>
   summary_lines [(''timeouts'', [(''delay1_time'', d1), (''timeout_time'', d2)])] =
     [Line ''mean time'' [AStr ''timeouts'', ATime ((d1 + d2) / 2)]]"
proof -
  have "test_timeouts ev w =
        (Inr [(''delay1_time'', d1), (''timeout_time'', d2)],
         w\<lparr>clock := clock w + d1 + d2,
           log := log w @ [Call (http ''GET'' (BASE_URL @ ''/delay/1'')) (Inr r),
                           Call ((http ''GET'' (BASE_URL @ ''/delay/5''))\<lparr>timeout := Some 3\<rparr>)
                             (Inl Timeout)],
           out := out w @ [Line ''=== 8. Timeouts ==='' [],
                           Line ''Delay 1s'' [AInt (status_code r), ATime d1],
                           Line ''Timeout fired after'' [ATime d2]]\<rparr>)"
    if "send ev (http ''GET'' (BASE_URL @ ''/delay/1'')) (log w) = (Inr r, d1)"
      "send ev ((http ''GET'' (BASE_URL @ ''/delay/5''))\<lparr>timeout := Some 3\<rparr>)
         (log w @ [Call (http ''GET'' (BASE_URL @ ''/delay/1'')) (Inr r)]) = (Inl Timeout, d2)"
    using that
    by (simp add: test_timeouts_def eval_simps delay_1_request_def delay_5_timeout_request_def)
  moreover have "summary_lines [(''timeouts'', [(''delay1_time'', d1), (''timeout_time'', d2)])] =
     [Line ''mean time'' [AStr ''timeouts'', ATime ((d1 + d2) / 2)]]"
    by (simp add: summary_lines_def times_of_def endswith_def)
  ultimately show ?thesis
    by (simp add: print_summary_lines)
qed

theorem timeout_time_enters_the_average_witness:
  "fst (test_timeouts httpbin world0) = Inr [(''delay1_time'', 1), (''timeout_time'', 3)] \<and>
   out (snd (test_timeouts httpbin world0)) =
     [Line ''=== 8. Timeouts ==='' [], Line ''Delay 1s'' [AInt 200, ATime 1],
      Line ''Timeout fired after'' [ATime 3]] \<and>
   summary_lines [(''timeouts'', [(''delay1_time'', 1), (''timeout_time'', 3)])] =
     [Line ''mean time'' [AStr ''timeouts'', ATime 2]]"
  using timeout_time_enters_the_average [where ev = httpbin and w = world0
      and r = "ok_response (BASE_URL @ ''/delay/1'')" and ?d1.0 = 1 and ?d2.0 = 3]
    send_delays_httpbin
  by (simp add: world0_def ok_response_def)

text \<open>
  C7 as the specification states it fails: in the complete run on the reference service
  the timeout scenario returns \<^verbatim>\<open>None\<close> after 3 seconds, and the summary reports the mean 2
  for the timeouts group, the mean of 1 and 3, where the only scenario of the group that
  completed with a result took 1 second.
\<close>

theorem summary_average_includes_timeout:
  "fst (delay_5_timeout_request httpbin world0) = Inr (None, 3) \<and>
   map_of (projr (fst (run_all_tests_requests httpbin world0))) ''timeouts'' =
     Some [(''delay1_time'', 1), (''timeout_time'', 3)] \<and>
   dropWhile (\<lambda>l. l \<noteq> Line ''=== RESULTS SUMMARY ==='' [])
       (out (snd (run_all_tests_requests httpbin world0))) =
     [Line ''=== RESULTS SUMMARY ==='' [],
      Line ''mean time'' [AStr ''basic'', ATime (1 / 5)],
      Line ''mean time'' [AStr ''params'', ATime (1 / 5)],
      Line ''mean time'' [AStr ''body_formats'', ATime (1 / 5)],
      Line ''mean time'' [AStr ''auth'', ATime (1 / 5)],
      Line ''mean time'' [AStr ''cookies'', ATime (1 / 5)],
      Line ''mean time'' [AStr ''errors'', ATime (1 / 5)],
      Line ''mean time'' [AStr ''redirects'', ATime (1 / 5)],
      Line ''mean time'' [AStr ''timeouts'', ATime 2],
      Line ''mean time'' [AStr ''streaming'', ATime (1 / 5)],
      Line ''mean time'' [AStr ''compression'', ATime (1 / 5)],
      Line ''mean time'' [AStr ''parallel'', ATime (9 / 2)],
      Line ''mean time'' [AStr ''upload'', ATime (1 / 5)],
      Line ''mean time'' [AStr ''formats'', ATime (1 / 5)],
      Line ''mean time'' [AStr ''sessions'', ATime (1 / 5)]]"
  by (simp add: run_all_tests_requests_def run_all_tests_apply eval_simps scenario_defs group_defs
        httpbin_defs world0_def summary_lines_def times_of_def endswith_def
        gather_all.simps chop.simps bytes_1024_def tmp_name_def)

section \<open>Further properties of the scripts\<close>

text \<open>
  X1. In \<^verbatim>\<open>httplib2_lib.py\<close>, when the delayed call is answered and the call with the
  timeout raises any exception of class \<^verbatim>\<open>Exception\<close> (the timeout among them),
  \<^verbatim>\<open>test_timeouts\<close> raises \<^verbatim>\<open>AttributeError\<close>: the scenario returns the pair
  \<^verbatim>\<open>(None, None)\<close>, which is not \<^verbatim>\<open>None\<close>, and the group reads the status of its first
  component.
\<close>

theorem httplib2_timeout_raises_AttributeError:
  "send ev (http ''GET'' (BASE_URL @ ''/delay/1'')) (log w) = (Inr r, d1) \<Longrightarrow>
   send ev ((http ''GET'' (BASE_URL @ ''/delay/5''))\<lparr>timeout := Some 3\<rparr>)
        (log w @ [Call (http ''GET'' (BASE_URL @ ''/delay/1'')) (Inr r)]) = (Inl e, d2) \<Longrightarrow>
   is_Exception e \<Longrightarrow>
   fst (test_timeouts_httplib2 ev w) = Inl AttributeError"
  by (simp add: test_timeouts_httplib2_def eval_simps delay_1_request_httplib2_def
        delay_5_timeout_request_httplib2_def)

theorem httplib2_timeout_raises_AttributeError_witness:
  "fst (test_timeouts_httplib2 httpbin world0) = Inl AttributeError"
  using httplib2_timeout_raises_AttributeError [where ev = httpbin and w = world0
      and r = "ok_response (BASE_URL @ ''/delay/1'')" and ?d1.0 = 1 and e = Timeout and ?d2.0 = 3]
    send_delays_httpbin
  by simp

text \<open>
  X2. \<^verbatim>\<open>delay_5_timeout_request\<close> of \<^verbatim>\<open>urllib_request_lib.py\<close> catches \<^verbatim>\<open>Exception\<close>: it
  returns \<^verbatim>\<open>None\<close>, the outcome of a timeout, for every failure of the call, with the time
  the call took.
\<close>

theorem urllib_timeout_scenario_hides_other_failures:
  "send ev (http ''GET'' (BASE_URL @ ''/delay/5'')\<lparr>timeout := Some 3\<rparr>) (log w) = (Inl e, d) \<Longrightarrow>
   is_Exception e \<Longrightarrow>
   fst (delay_5_timeout_request_urllib ev w) = Inr (None, d)"
  by (simp add: delay_5_timeout_request_urllib_def urlopen_def opener_open_def build_opener_def
        default_classes_def eval_simps http_def)

theorem urllib_timeout_scenario_hides_other_failures_witness:
  "fst (delay_5_timeout_request_urllib (unreachable [BASE_URL @ ''/delay/5'']) world0) =
     Inr (None, 1/10)"
  using urllib_timeout_scenario_hides_other_failures [OF send_delay5_unreachable] by simp

text \<open>
  X3. \<^verbatim>\<open>no_redirect_request\<close> of \<^verbatim>\<open>requests_lib.py\<close> and of \<^verbatim>\<open>urllib3_lib.py\<close> issues
  its call with the no-follow policy and returns the response the transport gives for
  that call, unchanged.
\<close>

theorem no_redirect_request_returns_raw_response:
  "send ev ((http ''GET'' (BASE_URL @ ''/redirect/1''))\<lparr>allow_redirects := False\<rparr>) (log w) = (Inr r, d) \<Longrightarrow>
   no_redirect_request ev w =
     (Inr (r, d), w\<lparr>clock := clock w + d,
        log := log w @ [Call ((http ''GET'' (BASE_URL @ ''/redirect/1''))\<lparr>allow_redirects := False\<rparr>)
                          (Inr r)]\<rparr>) \<and>
   no_redirect_request_urllib3 ev w =
     (Inr (r, d), w\<lparr>clock := clock w + d,
        log := log w @ [Call ((http ''GET'' (BASE_URL @ ''/redirect/1''))\<lparr>allow_redirects := False\<rparr>)
                          (Inr r)]\<rparr>)"
  by (simp add: no_redirect_request_def no_redirect_request_urllib3_def timed_call_Inr
        timed_request_urllib3_Inr)

theorem no_redirect_request_returns_raw_response_witness:
  "fst (no_redirect_request httpbin world0) =
     Inr ((ok_response (BASE_URL @ ''/redirect/1''))
        \<lparr>status_code := 302, resp_headers := [(''Location'', ''/get'')], json_body := None\<rparr>, 1/5) \<and>
   fst (no_redirect_request_urllib3 httpbin world0) =
     Inr ((ok_response (BASE_URL @ ''/redirect/1''))
        \<lparr>status_code := 302, resp_headers := [(''Location'', ''/get'')], json_body := None\<rparr>, 1/5)"
  using no_redirect_request_returns_raw_response [OF send_no_follow_httpbin] by simp

text \<open>
  X4. When every group runs to its end, \<^verbatim>\<open>run_all_tests\<close> returns the results of all of
  them and prints the summary of all of them.
\<close>

theorem run_all_tests_all_groups_succeed:
  "run_groups groups [] (w\<lparr>out := out w @ [Line banner []]\<rparr>) = ((None, done), w1) \<Longrightarrow>
   run_all_tests banner groups w =
     (Inr done, w1\<lparr>out := out w1 @ [Line ''=== RESULTS SUMMARY ==='' []] @ summary_lines done\<rparr>)"
  by (simp add: run_all_tests_apply)

theorem run_all_tests_all_groups_succeed_witness:
  "fst (run_all_tests ''banner'' [(''basic'', test_basic_requests httpbin)] world0) =
     Inr [(''basic'', [(''get_time'', 1/5), (''post_time'', 1/5),
                       (''put_time'', 1/5), (''delete_time'', 1/5)])]"
proof -
  let ?w0 = "world0\<lparr>out := out world0 @ [Line ''banner'' []]\<rparr>"
  have "run_groups [(''basic'', test_basic_requests httpbin)] [] ?w0 =
      ((None, [(''basic'', [(''get_time'', 1/5), (''post_time'', 1/5),
                            (''put_time'', 1/5), (''delete_time'', 1/5)])]),
       snd (run_groups [(''basic'', test_basic_requests httpbin)] [] ?w0))"
    using basic_group_httpbin by (metis prod.collapse)
  from run_all_tests_all_groups_succeed [OF this] show ?thesis
    by simp
qed

text \<open>
  X5. \<^verbatim>\<open>get_cookies_request\<close> of \<^verbatim>\<open>urllib_request_lib.py\<close> sets and retrieves the cookie
  through one opener with a new cookie jar and returns the response of the retrieval:
  when the service answers both calls and echoes the session cookie of a call, that
  response holds \<open>session = abc123\<close>.
\<close>

theorem urllib_cookie_jar_round_trip:
  assumes "cookie_echo ev"
    and "send ev ((http ''GET'' (BASE_URL @ ''/cookies/set?session=abc123''))
                    \<lparr>cookiejar := Some (njars w)\<rparr>) (log w) = (Inr r1, d1)"
    and "send ev ((http ''GET'' (BASE_URL @ ''/cookies''))\<lparr>cookiejar := Some (njars w)\<rparr>)
           (log w @ [Call ((http ''GET'' (BASE_URL @ ''/cookies/set?session=abc123''))
                             \<lparr>cookiejar := Some (njars w)\<rparr>) (Inr r1)]) = (Inr r2, d2)"
  shows "get_cookies_request_urllib ev w =
     (Inr (r2, d1 + d2),
      w\<lparr>clock := clock w + d1 + d2,
        log := log w @
          [Call ((http ''GET'' (BASE_URL @ ''/cookies/set?session=abc123''))
                   \<lparr>cookiejar := Some (njars w)\<rparr>) (Inr r1),
           Call ((http ''GET'' (BASE_URL @ ''/cookies''))\<lparr>cookiejar := Some (njars w)\<rparr>) (Inr r2)],
        njars := njars w + 1\<rparr>) \<and>
   session_cookie r2 = Some ''abc123''"
proof
  show "get_cookies_request_urllib ev w =
     (Inr (r2, d1 + d2),
      w\<lparr>clock := clock w + d1 + d2,
        log := log w @
          [Call ((http ''GET'' (BASE_URL @ ''/cookies/set?session=abc123''))
                   \<lparr>cookiejar := Some (njars w)\<rparr>) (Inr r1),
           Call ((http ''GET'' (BASE_URL @ ''/cookies''))\<lparr>cookiejar := Some (njars w)\<rparr>) (Inr r2)],
        njars := njars w + 1\<rparr>)"
    using assms(2,3)
    by (simp add: get_cookies_request_urllib_def opener_open_jar Let_def CookieJar_apply eval_simps)
  let ?set = "(http ''GET'' (BASE_URL @ ''/cookies/set?session=abc123''))\<lparr>cookiejar := Some (njars w)\<rparr>"
  let ?get = "(http ''GET'' (BASE_URL @ ''/cookies''))\<lparr>cookiejar := Some (njars w)\<rparr>"
  have "strip_prefix (BASE_URL @ ''/cookies/set?session='') (url ?set) = Some ''abc123''"
    by (simp add: http_def strip_set_url)
  moreover have "url ?get = BASE_URL @ ''/cookies''" "headers ?get = []"
    by (simp_all add: http_def)
  ultimately show "session_cookie r2 = Some ''abc123''"
    using jar_round_trip [OF assms(1), where ?rq1.0 = ?set and ?rq2.0 = ?get and j = "njars w"
        and x = "''abc123''" and hist = "log w" and ?r1.0 = r1 and ?r2.0 = r2 and ?d2.0 = d2]
      assms(3)
    by simp
qed

theorem urllib_cookie_jar_round_trip_witness:
  "fst (get_cookies_request_urllib httpbin_urllib world0) =
     Inr ((ok_response (BASE_URL @ ''/cookies''))
            \<lparr>json_body := Some (JObj [(''cookies'', JObj [(''session'', JStr ''abc123'')])])\<rparr>, 2/5) \<and>
   session_cookie ((ok_response (BASE_URL @ ''/cookies''))
      \<lparr>json_body := Some (JObj [(''cookies'', JObj [(''session'', JStr ''abc123'')])])\<rparr>) =
     Some ''abc123''"
  using urllib_cookie_jar_round_trip [OF cookie_echo_httpbin_urllib
      sends_cookies_httpbin_urllib(1) sends_cookies_httpbin_urllib(2), of world0]
  by simp

text \<open>
  X6. \<^verbatim>\<open>delay_5_timeout_request\<close> of \<^verbatim>\<open>urllib3_lib.py\<close> catches
  \<^verbatim>\<open>urllib3.exceptions.TimeoutError\<close> and means to return \<^verbatim>\<open>None\<close>, as its sibling in
  \<^verbatim>\<open>requests_lib.py\<close> does. But the pool repeats the attempt that timed out, and when
  every attempt times out it raises \<^verbatim>\<open>MaxRetryError\<close> after the fourth, which the handler
  does not catch: the scenario raises, after the time of four attempts, and returns
  nothing.
\<close>

theorem urllib3_timeout_raises_MaxRetryError:
  assumes "send ev ((http ''GET'' (BASE_URL @ ''/delay/5''))\<lparr>timeout := Some 3\<rparr>) (log w) =
             (Inl Timeout, d1)"
    and "send ev ((http ''GET'' (BASE_URL @ ''/delay/5''))\<lparr>timeout := Some 3\<rparr>)
           (log w @ [Call ((http ''GET'' (BASE_URL @ ''/delay/5''))\<lparr>timeout := Some 3\<rparr>) (Inl Timeout)]) =
             (Inl Timeout, d2)"
    and "send ev ((http ''GET'' (BASE_URL @ ''/delay/5''))\<lparr>timeout := Some 3\<rparr>)
           (log w @ [Call ((http ''GET'' (BASE_URL @ ''/delay/5''))\<lparr>timeout := Some 3\<rparr>) (Inl Timeout),
                     Call ((http ''GET'' (BASE_URL @ ''/delay/5''))\<lparr>timeout := Some 3\<rparr>) (Inl Timeout)]) =
             (Inl Timeout, d3)"
    and "send ev ((http ''GET'' (BASE_URL @ ''/delay/5''))\<lparr>timeout := Some 3\<rparr>)
           (log w @ [Call ((http ''GET'' (BASE_URL @ ''/delay/5''))\<lparr>timeout := Some 3\<rparr>) (Inl Timeout),
                     Call ((http ''GET'' (BASE_URL @ ''/delay/5''))\<lparr>timeout := Some 3\<rparr>) (Inl Timeout),
                     Call ((http ''GET'' (BASE_URL @ ''/delay/5''))\<lparr>timeout := Some 3\<rparr>) (Inl Timeout)]) =
             (Inl Timeout, d4)"
  shows "delay_5_timeout_request_urllib3 ev w =
     (Inl MaxRetryError,
      w\<lparr>clock := clock w + d1 + d2 + d3 + d4,
        log := log w @
          [Call ((http ''GET'' (BASE_URL @ ''/delay/5''))\<lparr>timeout := Some 3\<rparr>) (Inl Timeout),
           Call ((http ''GET'' (BASE_URL @ ''/delay/5''))\<lparr>timeout := Some 3\<rparr>) (Inl Timeout),
           Call ((http ''GET'' (BASE_URL @ ''/delay/5''))\<lparr>timeout := Some 3\<rparr>) (Inl Timeout),
           Call ((http ''GET'' (BASE_URL @ ''/delay/5''))\<lparr>timeout := Some 3\<rparr>) (Inl Timeout)]\<rparr>)"
  using urlopen_urllib3_exhausted [OF assms]
  by (simp add: delay_5_timeout_request_urllib3_def measure_time_apply try_except_apply
        pbind_apply raise_apply)

theorem urllib3_timeout_raises_MaxRetryError_witness:
  "delay_5_timeout_request_urllib3 httpbin world0 =
     (Inl MaxRetryError,
      world0\<lparr>clock := 12,
        log :=
          [Call ((http ''GET'' (BASE_URL @ ''/delay/5''))\<lparr>timeout := Some 3\<rparr>) (Inl Timeout),
           Call ((http ''GET'' (BASE_URL @ ''/delay/5''))\<lparr>timeout := Some 3\<rparr>) (Inl Timeout),
           Call ((http ''GET'' (BASE_URL @ ''/delay/5''))\<lparr>timeout := Some 3\<rparr>) (Inl Timeout),
           Call ((http ''GET'' (BASE_URL @ ''/delay/5''))\<lparr>timeout := Some 3\<rparr>) (Inl Timeout)]\<rparr>)"
  using urllib3_timeout_raises_MaxRetryError
      [OF send_delay5_httpbin send_delay5_httpbin send_delay5_httpbin send_delay5_httpbin, of world0]
  by (simp add: world0_def)

text \<open>
  X7. What becomes of the temporary file of \<^verbatim>\<open>file_upload_request\<close>. When the system
  cannot create it, the scenario raises and no file is made. When it is created and the
  write raises, the scenario raises that exception and the empty file stays. When it is
  created and written, the scenario issues the upload with the bytes that were written,
  and whether the call is answered or raises, the file is removed before the scenario
  returns the response or passes the exception on; no other file is touched. The last
  holds in \<^verbatim>\<open>requests_lib.py\<close>, \<^verbatim>\<open>urllib_request_lib.py\<close> and \<^verbatim>\<open>aiohttp_lib.py\<close> alike.
\<close>

theorem file_upload_request_temp_file:
  "(mktemp ev (map fst (files w)) = Inl e \<longrightarrow> file_upload_request ev w = (Inl e, w)) \<and>
   (mktemp ev (map fst (files w)) = Inr p \<longrightarrow> encode ev file_text = Inl e \<longrightarrow>
      file_upload_request ev w =
        (Inl e, w\<lparr>files := (p, []) # filter (\<lambda>(q, c). q \<noteq> p) (files w)\<rparr>)) \<and>
   (mktemp ev (map fst (files w)) = Inr p \<longrightarrow> encode ev file_text = Inr bytes \<longrightarrow>
      (send ev ((http ''POST'' (BASE_URL @ ''/post''))
                  \<lparr>body := MultipartBody [(''description'', file_description)]
                             [(''file'', ''test.txt'', bytes, ''text/plain'')]\<rparr>) (log w) =
         (outcome, d) \<longrightarrow>
       file_upload_request ev w =
         (map_sum (\<lambda>e. e) (\<lambda>r. (r, d)) outcome,
          w\<lparr>clock := clock w + d,
            log := log w @ [Call ((http ''POST'' (BASE_URL @ ''/post''))
                  \<lparr>body := MultipartBody [(''description'', file_description)]
                             [(''file'', ''test.txt'', bytes, ''text/plain'')]\<rparr>) outcome],
            files := filter (\<lambda>(q, c). q \<noteq> p) (files w)\<rparr>)) \<and>
      files (snd (file_upload_request_urllib ev w)) = filter (\<lambda>(q, c). q \<noteq> p) (files w) \<and>
      files (snd (file_upload_request_aiohttp ev w)) = filter (\<lambda>(q, c). q \<noteq> p) (files w) \<and>
      map_of (filter (\<lambda>(q, c). q \<noteq> p) (files w)) p = None)"
proof (intro conjI impI)
  assume "mktemp ev (map fst (files w)) = Inl e"
  then show "file_upload_request ev w = (Inl e, w)"
    by (simp add: file_upload_request_def measure_time_Inl [OF upload_not_created])
next
  assume "mktemp ev (map fst (files w)) = Inr p" "encode ev file_text = Inl e"
  then show "file_upload_request ev w =
        (Inl e, w\<lparr>files := (p, []) # filter (\<lambda>(q, c). q \<noteq> p) (files w)\<rparr>)"
    by (simp add: file_upload_request_def measure_time_Inl [OF upload_not_written])
next
  assume made: "mktemp ev (map fst (files w)) = Inr p" "encode ev file_text = Inr bytes"
    and sent: "send ev ((http ''POST'' (BASE_URL @ ''/post''))
                  \<lparr>body := MultipartBody [(''description'', file_description)]
                             [(''file'', ''test.txt'', bytes, ''text/plain'')]\<rparr>) (log w) =
         (outcome, d)"
  show "file_upload_request ev w =
         (map_sum (\<lambda>e. e) (\<lambda>r. (r, d)) outcome,
          w\<lparr>clock := clock w + d,
            log := log w @ [Call ((http ''POST'' (BASE_URL @ ''/post''))
                  \<lparr>body := MultipartBody [(''description'', file_description)]
                             [(''file'', ''test.txt'', bytes, ''text/plain'')]\<rparr>) outcome],
            files := filter (\<lambda>(q, c). q \<noteq> p) (files w)\<rparr>)"
    using upload_written [OF made, where upload = "\<lambda>p file. (http ''POST'' (BASE_URL @ ''/post''))
                  \<lparr>body := MultipartBody [(''description'', file_description)]
                             [(''file'', ''test.txt'', file, ''text/plain'')]\<rparr>", OF sent]
    by (cases outcome) (simp_all add: file_upload_request_def measure_time_apply)
next
  assume made: "mktemp ev (map fst (files w)) = Inr p" "encode ev file_text = Inr bytes"
  let ?upload = "\<lambda>p file. (http ''POST'' (BASE_URL @ ''/post''))
               \<lparr>headers := [(''Content-Type'', ''application/x-www-form-urlencoded'')],
                body := FormBody [(''description'', file_description), (''file'', file)]\<rparr>"
  obtain outcome d where sent: "send ev (?upload p bytes) (log w) = (outcome, d)"
    by (cases "send ev (?upload p bytes) (log w)") auto
  have plain: "urlopen ev (?upload q fc) = call ev (?upload q fc)" for q fc
    by (rule urlopen_plain) (simp_all add: http_def)
  show "files (snd (file_upload_request_urllib ev w)) = filter (\<lambda>(q, c). q \<noteq> p) (files w)"
    using upload_written [OF made, where upload = ?upload, OF sent]
    by (simp add: file_upload_request_urllib_def snd_measure_time plain)
next
  assume made: "mktemp ev (map fst (files w)) = Inr p" "encode ev file_text = Inr bytes"
  let ?w = "w\<lparr>njars := njars w + 1\<rparr>"
  let ?upload = "\<lambda>p file. (aiohttp_request \<lparr>jar = njars w, session_headers = []\<rparr> ''POST''
                               (BASE_URL @ ''/post''))
               \<lparr>body := MultipartBody [(''description'', file_description)]
                          [(''file'', ''test.txt'', file, ''text/plain'')]\<rparr>"
  obtain outcome d where sent: "send ev (?upload p bytes) (log ?w) = (outcome, d)"
    by (cases "send ev (?upload p bytes) (log ?w)") auto
  from made have made': "mktemp ev (map fst (files ?w)) = Inr p"
    by simp
  show "files (snd (file_upload_request_aiohttp ev w)) = filter (\<lambda>(q, c). q \<noteq> p) (files w)"
    using upload_written [OF made' made(2), where upload = ?upload, OF sent]
    by (simp add: file_upload_request_aiohttp_def measure_time_async_eq snd_measure_time
          with_aiohttp_session_def pbind_apply [where m = ClientSession] ClientSession_apply)
next
  show "map_of (filter (\<lambda>(q, c). q \<noteq> p) (files w)) p = None"
    by (rule map_of_filter_other)
qed

theorem file_upload_request_temp_file_witness:
  "file_upload_request httpbin world0 =
     (Inr (ok_response (BASE_URL @ ''/post''), 1/5),
      world0\<lparr>clock := 1/5,
        log := [Call ((http ''POST'' (BASE_URL @ ''/post''))
                  \<lparr>body := MultipartBody [(''description'', file_description)]
                             [(''file'', ''test.txt'', file_text, ''text/plain'')]\<rparr>)
                  (Inr (ok_response (BASE_URL @ ''/post'')))]\<rparr>) \<and>
   file_upload_request (unreachable [BASE_URL @ ''/post'']) world0 =
     (Inl TransportError,
      world0\<lparr>clock := 1/10,
        log := [Call ((http ''POST'' (BASE_URL @ ''/post''))
                  \<lparr>body := MultipartBody [(''description'', file_description)]
                             [(''file'', ''test.txt'', file_text, ''text/plain'')]\<rparr>)
                  (Inl TransportError)]\<rparr>) \<and>
   files (snd (file_upload_request_urllib httpbin world0)) = [] \<and>
   files (snd (file_upload_request_aiohttp httpbin world0)) = []"
proof -
  let ?rq = "(http ''POST'' (BASE_URL @ ''/post''))
                  \<lparr>body := MultipartBody [(''description'', file_description)]
                             [(''file'', ''test.txt'', file_text, ''text/plain'')]\<rparr>"
  have ok: "send httpbin ?rq (log world0) = (Inr (ok_response (BASE_URL @ ''/post'')), 1/5)"
    by (simp add: httpbin_def httpbin_send_def http_def BASE_URL_def Let_def)
  have down: "send (unreachable [BASE_URL @ ''/post'']) ?rq (log world0) = (Inl TransportError, 1/10)"
    by (simp add: unreachable_def httpbin_def http_def)
  have made: "mktemp httpbin (map fst (files world0)) = Inr ''/tmp/tmp.txt''"
      "mktemp (unreachable [BASE_URL @ ''/post'']) (map fst (files world0)) = Inr ''/tmp/tmp.txt''"
      "encode httpbin file_text = Inr file_text"
      "encode (unreachable [BASE_URL @ ''/post'']) file_text = Inr file_text"
    by (simp_all add: httpbin_def unreachable_def tmp_name_def world0_def)
  show ?thesis
    using file_upload_request_temp_file [where ev = httpbin and w = world0
        and p = "''/tmp/tmp.txt''" and bytes = file_text
        and outcome = "Inr (ok_response (BASE_URL @ ''/post''))" and d = "1/5"]
      file_upload_request_temp_file [where ev = "unreachable [BASE_URL @ ''/post'']" and w = world0
        and p = "''/tmp/tmp.txt''" and bytes = file_text
        and outcome = "Inl TransportError" and d = "1/10"]
      ok down made
    by (simp add: world0_def)
qed

end
